theory Spec2Isabelle
  imports Complex_Main
begin

section \<open>Conventions of the embedding\<close>

text \<open>
  The program is a Node.js process whose modules keep their state in module-level
  variables: \<^verbatim>\<open>server.ts\<close> (the state mirror and the broadcast hub),
  \<^verbatim>\<open>osc/osc-bridge.ts\<close> (input ingestion), \<^verbatim>\<open>tools/audio-tools.ts\<close> (the binding
  registry) and \<^verbatim>\<open>tools/setlist-tools.ts\<close> (the timeline scheduler). All of these
  variables are the fields of one record \<open>state\<close>, which every modelled function takes and
  returns.

  \<^item> A JavaScript \<^verbatim>\<open>number\<close> is a \<open>real\<close>; \<^verbatim>\<open>NaN\<close>, the infinities and rounding are
    not represented. A number used as an array index or a channel is an \<open>int\<close> or a
    \<open>nat\<close>: fractional indices are not represented.
  \<^item> \<^verbatim>\<open>Date.now()\<close> is the argument \<open>now\<close> of every function that reads the clock or
    arms a timer.
  \<^item> \<^verbatim>\<open>setTimeout\<close> appends a pending timer (identifier, arming time, delay, captured
    callback) to the field \<open>timers\<close>; \<^verbatim>\<open>clearTimeout\<close> removes it; \<open>fire_timer\<close> is the
    event loop running a pending callback.
  \<^item> \<^verbatim>\<open>broadcastToClients\<close> appends its message to the field \<open>broadcasts\<close>: the
    sequence of messages every session that is open at that moment is sent.
  \<^item> The preset and setlist files are the maps \<open>presetFiles\<close> and \<open>setlistFiles\<close> from
    file names (without directory and extension) to parsed contents.
  \<^item> The custom OSC mappings of the bridge are the field \<open>customMappings\<close>.
  \<^item> A tool handler is \<^verbatim>\<open>async\<close>; it is modelled as one atomic step. A handler that
    returns \<^verbatim>\<open>mcpError\<close> or throws returns \<open>Inl\<close> of an \<open>error\<close>, together with the
    state it leaves behind.
  \<^item> Console output is not modelled.
\<close>

section \<open>Shared types (types.ts)\<close>

type_synonym rgb = "real \<times> real \<times> real"

record PaletteConfig =
  color1 :: rgb
  color2 :: rgb
  color3 :: rgb
  bg :: rgb

record AudioBinding =
  source :: string
  target :: string
  multiplier :: real
  offset :: real
  smoothing :: real

record Keyframe =
  kf_time :: real
  kf_value :: real
  easing :: string

record Automation =
  automation_target :: string
  keyframes :: "Keyframe list"

datatype transition = Cut | Crossfade | Flash

record SetlistChapter =
  chapter_name :: string
  shader :: string
  start_time :: real
  end_time :: real
  transition_in :: transition
  transition_duration :: real
  params :: "(string \<times> real) list option"
  palette :: "PaletteConfig option"
  audio_bindings :: "AudioBinding list option"
  automations :: "Automation list option"

record Setlist =
  setlist_name :: string
  chapters :: "SetlistChapter list"

record ShaderPreset =
  preset_id :: string
  preset_name :: string
  code :: string

text \<open>The messages of \<^verbatim>\<open>WSMessageToClient\<close> that the modelled functions send.\<close>

datatype ws_message =
    Shader_push string string
  | Shader_crossfade string string real
  | Param_set string real
  | Palette_set PaletteConfig
  | Get_state
  | Chapter_info string nat nat
  | Ext_set int real
  | Ext_xy_set int real real
  | Bpm_set real
  | Automation_msg "Automation list"
  | Audio_bind AudioBinding
  | Audio_unbind string
  | Perform_flash real

section \<open>Errors and replies\<close>

datatype error =
    ExtChannelRangeError int
  | XYChannelRangeError int
  | BpmRangeError real
  | TypeError
  | ChapterIndexOutOfRange int int
  | NoChapterAtTime real
  | NoBindingFound string
  | SetlistNotFound string
  | ChapterNotFound string
  | McpError string

datatype reply =
    Done
  | Bound AudioBinding nat
  | Unbound string nat
  | Loaded string
  | Playing string string nat
  | AlreadyPaused
  | Paused string nat
  | Jumped string nat
  | Deleted string

section \<open>The state of the process\<close>

record SetlistPlayback =
  active :: bool
  setlistName :: "string option"
  chapterIndex :: nat
  totalChapters :: nat
  startedAt :: "real option"

datatype timer_action = AdvanceChapter nat | FlashPush string string

record timer =
  timer_id :: nat
  armedAt :: real
  delay :: real
  action :: timer_action

record state =
  extChannels :: "real list"
  extXY :: "(real \<times> real) list"
  bpm :: real
  audioBindings :: "AudioBinding list"
  currentShaderId :: "string option"
  currentShaderCode :: "string option"
  currentPalette :: PaletteConfig
  setlistPlayback :: SetlistPlayback
  activeBindings :: "AudioBinding list"
  activeSetlist :: "Setlist option"
  playbackTimer :: "nat option"
  playbackStartedAt :: "real option"
  currentChapterIndex :: nat
  isPaused :: bool
  pauseOffset :: real
  broadcasts :: "ws_message list"
  timers :: "timer list"
  nextTimerId :: nat
  presetFiles :: "string \<Rightarrow> ShaderPreset option"
  setlistFiles :: "string \<Rightarrow> Setlist option"
  customMappings :: "(string \<times> string) list"

definition black :: rgb where
  "black = (0, 0, 0)"

definition initial_state :: state where
  "initial_state =
     \<lparr> extChannels = replicate 16 0,
       extXY = replicate 4 (0, 0),
       bpm = 120,
       audioBindings = [],
       currentShaderId = None,
       currentShaderCode = None,
       currentPalette = \<lparr> color1 = black, color2 = black, color3 = black, bg = black \<rparr>,
       setlistPlayback = \<lparr> active = False, setlistName = None, chapterIndex = 0,
                           totalChapters = 0, startedAt = None \<rparr>,
       activeBindings = [],
       activeSetlist = None,
       playbackTimer = None,
       playbackStartedAt = None,
       currentChapterIndex = 0,
       isPaused = False,
       pauseOffset = 0,
       broadcasts = [],
       timers = [],
       nextTimerId = 0,
       presetFiles = (\<lambda>_. None),
       setlistFiles = (\<lambda>_. None),
       customMappings = [] \<rparr>"

section \<open>State mirror and broadcast hub (server.ts)\<close>

definition broadcastToClients :: "ws_message \<Rightarrow> state \<Rightarrow> state" where
  "broadcastToClients message s = s\<lparr>broadcasts := broadcasts s @ [message]\<rparr>"

definition setExternalInput :: "int \<Rightarrow> real \<Rightarrow> state \<Rightarrow> (error + unit) \<times> state" where
  "setExternalInput channel v s =
     (if channel < 0 \<or> channel > 15 then (Inl (ExtChannelRangeError channel), s)
      else (Inr (),
            broadcastToClients (Ext_set channel v)
              (s\<lparr>extChannels := (extChannels s)[nat channel := v]\<rparr>)))"

definition setExternalXY :: "int \<Rightarrow> real \<Rightarrow> real \<Rightarrow> state \<Rightarrow> (error + unit) \<times> state" where
  "setExternalXY channel x y s =
     (if channel < 0 \<or> channel > 3 then (Inl (XYChannelRangeError channel), s)
      else (Inr (),
            broadcastToClients (Ext_xy_set channel x y)
              (s\<lparr>extXY := (extXY s)[nat channel := (x, y)]\<rparr>)))"


text \<open>
  \<^verbatim>\<open>getServerState()\<close>: the snapshot of the mirrored variables. Its two remaining fields,
  the number of connected clients and the last status reported by a renderer, are not
  part of the model.
\<close>

record ServerSnapshot =
  snap_extChannels :: "real list"
  snap_extXY :: "(real \<times> real) list"
  snap_bpm :: real
  snap_audioBindings :: "AudioBinding list"
  snap_currentShaderId :: "string option"
  snap_setlistPlayback :: SetlistPlayback

definition getServerState :: "state \<Rightarrow> ServerSnapshot" where
  "getServerState s =
     \<lparr> snap_extChannels = extChannels s,
       snap_extXY = extXY s,
       snap_bpm = bpm s,
       snap_audioBindings = audioBindings s,
       snap_currentShaderId = currentShaderId s,
       snap_setlistPlayback = setlistPlayback s \<rparr>"

definition setSetlistPlayback :: "(SetlistPlayback \<Rightarrow> SetlistPlayback) \<Rightarrow> state \<Rightarrow> state" where
  "setSetlistPlayback update s = s\<lparr>setlistPlayback := update (setlistPlayback s)\<rparr>"

definition setCurrentShaderId :: "string \<Rightarrow> state \<Rightarrow> state" where
  "setCurrentShaderId i s = s\<lparr>currentShaderId := Some i\<rparr>"

definition setCurrentShaderCode :: "string \<Rightarrow> state \<Rightarrow> state" where
  "setCurrentShaderCode c s = s\<lparr>currentShaderCode := Some c\<rparr>"

definition getCurrentPalette :: "state \<Rightarrow> PaletteConfig" where
  "getCurrentPalette s = currentPalette s"

definition setAudioBindings :: "AudioBinding list \<Rightarrow> state \<Rightarrow> state" where
  "setAudioBindings bindings s = s\<lparr>audioBindings := bindings\<rparr>"

text \<open>
  \<^verbatim>\<open>sendSyncToClient(ws)\<close>: the messages sent, in order, to the one session that has
  just connected. A string is truthy when it is present and not empty.
\<close>

definition truthy :: "string option \<Rightarrow> bool" where
  "truthy x = (case x of None \<Rightarrow> False | Some v \<Rightarrow> v \<noteq> [])"

definition sync_ext :: "state \<Rightarrow> ws_message list" where
  "sync_ext s =
     concat (map (\<lambda>i. if extChannels s ! i \<noteq> 0 then [Ext_set (int i) (extChannels s ! i)] else [])
                 [0..<16])"

definition sync_xy :: "state \<Rightarrow> ws_message list" where
  "sync_xy s =
     concat (map (\<lambda>i. if fst (extXY s ! i) \<noteq> 0 \<or> snd (extXY s ! i) \<noteq> 0
                       then [Ext_xy_set (int i) (fst (extXY s ! i)) (snd (extXY s ! i))] else [])
                 [0..<4])"

definition sync_shader :: "state \<Rightarrow> ws_message list" where
  "sync_shader s =
     (case (currentShaderCode s, currentShaderId s) of
        (Some c, Some i) \<Rightarrow> if c \<noteq> [] \<and> i \<noteq> [] then [Shader_push c i] else []
      | _ \<Rightarrow> [])"

definition sendSyncToClient :: "state \<Rightarrow> ws_message list" where
  "sendSyncToClient s =
     sync_ext s @ sync_xy s @ [Bpm_set (bpm s)] @ sync_shader s
       @ [Palette_set (getCurrentPalette s), Get_state]"

section \<open>Input ingestion (osc/osc-bridge.ts)\<close>

text \<open>
  \<^verbatim>\<open>startOscBridge(broadcastFn, port)\<close> registers one callback per address of the fixed
  scheme and one callback for \<^verbatim>\<open>'*'\<close>, which serves the custom mappings. The argument list
  of a callback is \<^verbatim>\<open>message.args\<close>; \<open>arg_or\<close> is \<^verbatim>\<open>message.args[k] ?? d\<close>. \<open>dec\<close> is the
  decimal numeral that a template literal prints for a loop index.
\<close>

definition digit_char :: "nat \<Rightarrow> char" where
  "digit_char d = ''0123456789'' ! d"

fun dec :: "nat \<Rightarrow> string" where
  "dec n = (if n < 10 then [digit_char n] else dec (n div 10) @ [digit_char (n mod 10)])"

declare dec.simps [simp del]

definition arg_or :: "real list \<Rightarrow> nat \<Rightarrow> real \<Rightarrow> real" where
  "arg_or args k d = (if k < length args then args ! k else d)"

type_synonym BroadcastFn = "ws_message \<Rightarrow> state \<Rightarrow> state"

type_synonym osc_callback = "real list \<Rightarrow> state \<Rightarrow> state"

definition osc_on_ext :: "BroadcastFn \<Rightarrow> nat \<Rightarrow> osc_callback" where
  "osc_on_ext broadcastFn channel args s = broadcastFn (Ext_set (int channel) (arg_or args 0 0)) s"

definition osc_on_xy :: "BroadcastFn \<Rightarrow> nat \<Rightarrow> osc_callback" where
  "osc_on_xy broadcastFn channel args s =
     broadcastFn (Ext_xy_set (int channel) (arg_or args 0 0) (arg_or args 1 0)) s"

definition osc_on_bpm :: "BroadcastFn \<Rightarrow> osc_callback" where
  "osc_on_bpm broadcastFn args s = broadcastFn (Bpm_set (arg_or args 0 120)) s"

definition osc_on_param :: "BroadcastFn \<Rightarrow> nat \<Rightarrow> osc_callback" where
  "osc_on_param broadcastFn i args s =
     broadcastFn (Param_set (''u_param'' @ dec i) (arg_or args 0 0)) s"

definition osc_on_intensity :: "BroadcastFn \<Rightarrow> osc_callback" where
  "osc_on_intensity broadcastFn args s = broadcastFn (Param_set ''u_intensity'' (arg_or args 0 1)) s"

definition osc_on_speed :: "BroadcastFn \<Rightarrow> osc_callback" where
  "osc_on_speed broadcastFn args s = broadcastFn (Param_set ''u_speed'' (arg_or args 0 1)) s"

definition paletteKeys :: "string list" where
  "paletteKeys = [''color1'', ''color2'', ''color3'', ''bg'']"

definition set_color :: "string \<Rightarrow> rgb \<Rightarrow> PaletteConfig \<Rightarrow> PaletteConfig" where
  "set_color key c colors =
     (if key = ''color1'' then colors\<lparr>color1 := c\<rparr>
      else if key = ''color2'' then colors\<lparr>color2 := c\<rparr>
      else if key = ''color3'' then colors\<lparr>color3 := c\<rparr>
      else colors\<lparr>bg := c\<rparr>)"

definition osc_on_palette :: "BroadcastFn \<Rightarrow> string \<Rightarrow> osc_callback" where
  "osc_on_palette broadcastFn key args s =
     broadcastFn
       (Palette_set
          (set_color key (arg_or args 0 0, arg_or args 1 0, arg_or args 2 0)
             \<lparr>color1 = (0, 0, 0), color2 = (0, 0, 0), color3 = (0, 0, 0), bg = (0, 0, 0)\<rparr>)) s"

text \<open>
  The target of a custom mapping routes to an ext channel when it matches
  \<^verbatim>\<open>/^u_ext\[(\d+)\]$/\<close>; the channel is \<^verbatim>\<open>parseInt\<close> of the digits.
\<close>

definition is_digit :: "char \<Rightarrow> bool" where
  "is_digit c = (let n = (of_char c :: nat) in 48 \<le> n \<and> n \<le> 57)"

definition parseInt10 :: "string \<Rightarrow> nat" where
  "parseInt10 ds = foldl (\<lambda>acc c. 10 * acc + (of_char c - 48)) 0 ds"

definition ext_target :: "string \<Rightarrow> nat option" where
  "ext_target tgt =
     (let body = drop 6 tgt; ds = butlast body
      in if take 6 tgt = ''u_ext['' \<and> body \<noteq> [] \<and> last body = CHR '']''
            \<and> ds \<noteq> [] \<and> list_all is_digit ds
         then Some (parseInt10 ds) else None)"

text \<open>
  The callback for \<^verbatim>\<open>'*'\<close>: a loop over the custom mappings (pairs of address and target)
  that returns after the first mapping of the address that routes to an ext channel.
\<close>

fun osc_on_any :: "BroadcastFn \<Rightarrow> string \<Rightarrow> real list \<Rightarrow> (string \<times> string) list \<Rightarrow> state \<Rightarrow> state" where
  "osc_on_any broadcastFn address args [] s = s"
| "osc_on_any broadcastFn address args (mapping # rest) s =
     (if address = fst mapping
      then (case ext_target (snd mapping) of
              Some channel \<Rightarrow> broadcastFn (Ext_set (int channel) (arg_or args 0 0)) s
            | None \<Rightarrow>
                osc_on_any broadcastFn address args rest
                  (broadcastFn (Param_set (snd mapping) (arg_or args 0 0)) s))
      else osc_on_any broadcastFn address args rest s)"

definition addOscMapping :: "string \<Rightarrow> string \<Rightarrow> state \<Rightarrow> state" where
  "addOscMapping address tgt s =
     s\<lparr>customMappings := filter (\<lambda>m. fst m \<noteq> address) (customMappings s) @ [(address, tgt)]\<rparr>"

text \<open>The callbacks of the fixed scheme with their addresses, in the order of registration.\<close>

definition osc_handlers :: "BroadcastFn \<Rightarrow> (string \<times> osc_callback) list" where
  "osc_handlers broadcastFn =
     map (\<lambda>i. (''/shade/ext/'' @ dec i, osc_on_ext broadcastFn i)) [0..<16]
     @ map (\<lambda>i. (''/shade/xy/'' @ dec i, osc_on_xy broadcastFn i)) [0..<4]
     @ [(''/shade/bpm'', osc_on_bpm broadcastFn)]
     @ map (\<lambda>i. (''/shade/param/'' @ dec i, osc_on_param broadcastFn i)) [1..<5]
     @ [(''/shade/intensity'', osc_on_intensity broadcastFn),
        (''/shade/speed'', osc_on_speed broadcastFn)]
     @ map (\<lambda>key. (''/shade/palette/'' @ key, osc_on_palette broadcastFn key)) paletteKeys"

text \<open>
  An incoming message. Dispatch is done by the \<^verbatim>\<open>osc-js\<close> library: every callback
  registered for the address of the message runs, in the order of registration, and the
  callback for \<^verbatim>\<open>'*'\<close>, registered last, runs for every message. The address of the
  message is taken to be a plain address, without pattern characters. Both call sites
  (the entry point and the \<^verbatim>\<open>input_osc_config\<close> tool) start the bridge as
  \<^verbatim>\<open>startOscBridge(broadcastToClients, port)\<close>.
\<close>

definition run_fixed :: "BroadcastFn \<Rightarrow> string \<Rightarrow> real list \<Rightarrow> state \<Rightarrow> state" where
  "run_fixed broadcastFn address args s =
     fold (\<lambda>h st. if fst h = address then snd h args st else st) (osc_handlers broadcastFn) s"

definition osc_receive :: "string \<Rightarrow> real list \<Rightarrow> state \<Rightarrow> state" where
  "osc_receive address args s =
     (let s1 = run_fixed broadcastToClients address args s
      in osc_on_any broadcastToClients address args (customMappings s1) s1)"

section \<open>Audio binding registry (tools/audio-tools.ts)\<close>

fun findIndex :: "('a \<Rightarrow> bool) \<Rightarrow> 'a list \<Rightarrow> nat option" where
  "findIndex P [] = None"
| "findIndex P (x # xs) = (if P x then Some 0 else map_option Suc (findIndex P xs))"

definition splice1 :: "nat \<Rightarrow> 'a list \<Rightarrow> 'a list" where
  "splice1 idx xs = take idx xs @ drop (Suc idx) xs"

definition audio_bind :: "AudioBinding \<Rightarrow> state \<Rightarrow> (error + reply) \<times> state" where
  "audio_bind binding s =
     (let removed = (case findIndex (\<lambda>b. target b = target binding) (activeBindings s) of
                       Some idx \<Rightarrow> splice1 idx (activeBindings s)
                     | None \<Rightarrow> activeBindings s);
          pushed = removed @ [binding];
          s1 = s\<lparr>activeBindings := pushed\<rparr>;
          s2 = setAudioBindings pushed s1;
          s3 = broadcastToClients (Audio_bind binding) s2
      in (Inr (Bound binding (length pushed)), s3))"

definition audio_unbind :: "string \<Rightarrow> state \<Rightarrow> (error + reply) \<times> state" where
  "audio_unbind tgt s =
     (case findIndex (\<lambda>b. target b = tgt) (activeBindings s) of
        None \<Rightarrow> (Inl (NoBindingFound tgt), s)
      | Some idx \<Rightarrow>
          (let remaining = splice1 idx (activeBindings s);
               s1 = s\<lparr>activeBindings := remaining\<rparr>;
               s2 = setAudioBindings remaining s1;
               s3 = broadcastToClients (Audio_unbind tgt) s2
           in (Inr (Unbound tgt (length remaining)), s3)))"

datatype audio_op = Bind AudioBinding | Unbind string

fun audio_step :: "audio_op \<Rightarrow> state \<Rightarrow> state" where
  "audio_step (Bind b) s = snd (audio_bind b s)"
| "audio_step (Unbind t) s = snd (audio_unbind t s)"

definition audio_run :: "audio_op list \<Rightarrow> state \<Rightarrow> state" where
  "audio_run ops s = fold audio_step ops s"

section \<open>Preset and setlist files (store/preset-store.ts)\<close>

text \<open>
  \<^verbatim>\<open>safeName\<close> replaces every character outside \<^verbatim>\<open>[a-zA-Z0-9_\-. ]\<close> by an underscore
  and trims the result; after the replacement the only white space left is the space.
  Names are taken to be ASCII.
\<close>

definition safe_char :: "char \<Rightarrow> char" where
  "safe_char c =
     (let n = (of_char c :: nat)
      in if (97 \<le> n \<and> n \<le> 122) \<or> (65 \<le> n \<and> n \<le> 90) \<or> (48 \<le> n \<and> n \<le> 57)
            \<or> n = 95 \<or> n = 45 \<or> n = 46 \<or> n = 32
         then c else CHR ''_'')"

definition trim :: "string \<Rightarrow> string" where
  "trim str =
     rev (dropWhile (\<lambda>c. c = CHR '' '') (rev (dropWhile (\<lambda>c. c = CHR '' '') str)))"

definition safeName :: "string \<Rightarrow> string" where
  "safeName name = trim (map safe_char name)"

definition getPreset :: "string \<Rightarrow> state \<Rightarrow> ShaderPreset option" where
  "getPreset name s = presetFiles s (safeName name)"

definition getSetlist :: "string \<Rightarrow> state \<Rightarrow> Setlist option" where
  "getSetlist name s = setlistFiles s (safeName name)"

definition deleteSetlist :: "string \<Rightarrow> state \<Rightarrow> bool \<times> state" where
  "deleteSetlist name s =
     (case setlistFiles s (safeName name) of
        None \<Rightarrow> (False, s)
      | Some _ \<Rightarrow> (True, s\<lparr>setlistFiles := (setlistFiles s)(safeName name := None)\<rparr>))"

section \<open>Timers\<close>

definition setTimeout :: "real \<Rightarrow> real \<Rightarrow> timer_action \<Rightarrow> state \<Rightarrow> nat \<times> state" where
  "setTimeout now d act s =
     (nextTimerId s,
      s\<lparr>timers := timers s @ [\<lparr>timer_id = nextTimerId s, armedAt = now, delay = d, action = act\<rparr>],
        nextTimerId := Suc (nextTimerId s)\<rparr>)"

definition clearTimeout :: "nat \<Rightarrow> state \<Rightarrow> state" where
  "clearTimeout tid s = s\<lparr>timers := filter (\<lambda>t. timer_id t \<noteq> tid) (timers s)\<rparr>"

definition due :: "timer \<Rightarrow> real" where
  "due t = armedAt t + delay t"

definition is_advance :: "timer \<Rightarrow> bool" where
  "is_advance t = (case action t of AdvanceChapter _ \<Rightarrow> True | FlashPush _ _ \<Rightarrow> False)"

definition pending_advances :: "state \<Rightarrow> timer list" where
  "pending_advances s = filter is_advance (timers s)"

section \<open>Timeline scheduler (tools/setlist-tools.ts)\<close>

definition nth_opt :: "'a list \<Rightarrow> nat \<Rightarrow> 'a option" where
  "nth_opt xs i = (if i < length xs then Some (xs ! i) else None)"

subsection \<open>Chapter emission\<close>

definition push_shader :: "real \<Rightarrow> SetlistChapter \<Rightarrow> ShaderPreset \<Rightarrow> state \<Rightarrow> state" where
  "push_shader now chapter preset s =
     (case transition_in chapter of
        Crossfade \<Rightarrow>
          broadcastToClients
            (Shader_crossfade (code preset) (preset_id preset) (transition_duration chapter)) s
      | Flash \<Rightarrow>
          snd (setTimeout now (transition_duration chapter * 1000 / 2)
                 (FlashPush (code preset) (preset_id preset))
                 (broadcastToClients (Perform_flash (transition_duration chapter)) s))
      | Cut \<Rightarrow> broadcastToClients (Shader_push (code preset) (preset_id preset)) s)"

definition push_params :: "SetlistChapter \<Rightarrow> state \<Rightarrow> state" where
  "push_params chapter s =
     (case params chapter of
        None \<Rightarrow> s
      | Some entries \<Rightarrow> fold (\<lambda>(name, v). broadcastToClients (Param_set name v)) entries s)"

definition push_palette :: "SetlistChapter \<Rightarrow> state \<Rightarrow> state" where
  "push_palette chapter s =
     (case palette chapter of
        None \<Rightarrow> s
      | Some pal \<Rightarrow>
          broadcastToClients
            (Palette_set \<lparr>color1 = color1 pal, color2 = color2 pal, color3 = color3 pal, bg = bg pal\<rparr>) s)"

definition push_bindings :: "SetlistChapter \<Rightarrow> state \<Rightarrow> state" where
  "push_bindings chapter s =
     (case audio_bindings chapter of
        None \<Rightarrow> s
      | Some bs \<Rightarrow> fold (\<lambda>binding. broadcastToClients (Audio_bind binding)) bs s)"

definition push_automations :: "SetlistChapter \<Rightarrow> state \<Rightarrow> state" where
  "push_automations chapter s =
     (case automations chapter of
        None \<Rightarrow> s
      | Some autos \<Rightarrow> if length autos > 0 then broadcastToClients (Automation_msg autos) s else s)"

definition pushChapter :: "real \<Rightarrow> SetlistChapter \<Rightarrow> nat \<Rightarrow> nat \<Rightarrow> state \<Rightarrow> state" where
  "pushChapter now chapter index n_total s =
     (case getPreset (shader chapter) s of
        None \<Rightarrow> s
      | Some preset \<Rightarrow>
          (let s1 = push_shader now chapter preset s;
               s2 = setCurrentShaderId (preset_id preset) s1;
               s3 = push_params chapter s2;
               s4 = push_palette chapter s3;
               s5 = push_bindings chapter s4;
               s6 = push_automations chapter s5
           in broadcastToClients (Chapter_info (chapter_name chapter) index n_total) s6))"

subsection \<open>The advance timer\<close>

definition scheduleNextChapter :: "real \<Rightarrow> state \<Rightarrow> state" where
  "scheduleNextChapter now s =
     (case activeSetlist s of
        None \<Rightarrow> s
      | Some sl \<Rightarrow>
          if isPaused s then s
          else
            (let nextIndex = currentChapterIndex s + 1
             in if nextIndex \<ge> length (chapters sl)
                then setSetlistPlayback (\<lambda>p. p\<lparr>active := False\<rparr>) s
                else
                  (let currentChapter = chapters sl ! currentChapterIndex s;
                       chapterDuration = (end_time currentChapter - start_time currentChapter) * 1000;
                       elapsed = pauseOffset s;
                       remaining = max 0 (chapterDuration - elapsed);
                       (tid, s1) = setTimeout now remaining (AdvanceChapter nextIndex) s
                   in s1\<lparr>playbackTimer := Some tid\<rparr>)))"

definition clearPlayback :: "state \<Rightarrow> state" where
  "clearPlayback s =
     (case playbackTimer s of
        None \<Rightarrow> s
      | Some tid \<Rightarrow> (clearTimeout tid s)\<lparr>playbackTimer := None\<rparr>)"

text \<open>The callback armed by \<open>scheduleNextChapter\<close>, with its captured \<^verbatim>\<open>nextIndex\<close>.\<close>

definition advance_callback :: "real \<Rightarrow> nat \<Rightarrow> state \<Rightarrow> (error + unit) \<times> state" where
  "advance_callback now nextIndex s =
     (let s1 = s\<lparr>currentChapterIndex := nextIndex, pauseOffset := 0\<rparr>;
          s2 = setSetlistPlayback (\<lambda>p. p\<lparr>chapterIndex := nextIndex\<rparr>) s1
      in case activeSetlist s2 of
           None \<Rightarrow> (Inl TypeError, s2)
         | Some sl \<Rightarrow>
             (case nth_opt (chapters sl) nextIndex of
                None \<Rightarrow> (Inl TypeError, s2)
              | Some chapter \<Rightarrow>
                  (Inr (),
                   scheduleNextChapter now
                     (pushChapter now chapter nextIndex (length (chapters sl)) s2))))"

text \<open>
  The event loop runs a pending timer that is due: the timer leaves the pending list and
  its callback runs. \<open>None\<close>: no such timer is pending, or it is not due yet.
\<close>

definition fire_timer :: "nat \<Rightarrow> real \<Rightarrow> state \<Rightarrow> ((error + unit) \<times> state) option" where
  "fire_timer tid now s =
     (case find (\<lambda>t. timer_id t = tid) (timers s) of
        None \<Rightarrow> None
      | Some t \<Rightarrow>
          if now < due t then None
          else
            (let s1 = clearTimeout tid s
             in case action t of
                  AdvanceChapter nextIndex \<Rightarrow> Some (advance_callback now nextIndex s1)
                | FlashPush c i \<Rightarrow> Some (Inr (), broadcastToClients (Shader_push c i) s1)))"

subsection \<open>Tool handlers\<close>

fun missing_shaders :: "SetlistChapter list \<Rightarrow> state \<Rightarrow> string list" where
  "missing_shaders [] s = []"
| "missing_shaders (chapter # rest) s =
     (case getPreset (shader chapter) s of
        None \<Rightarrow> shader chapter # missing_shaders rest s
      | Some _ \<Rightarrow> missing_shaders rest s)"

fun join :: "string \<Rightarrow> string list \<Rightarrow> string" where
  "join sep [] = []"
| "join sep [x] = x"
| "join sep (x # y # ys) = x @ sep @ join sep (y # ys)"

definition setlist_load :: "string \<Rightarrow> state \<Rightarrow> (error + reply) \<times> state" where
  "setlist_load name s =
     (case getSetlist name s of
        None \<Rightarrow> (Inl (SetlistNotFound name), s)
      | Some setlist \<Rightarrow>
          (let missing = missing_shaders (chapters setlist) s
           in if length missing > 0
              then (Inl (McpError (''Missing shader presets: '' @ join '', '' missing)), s)
              else
                (let s1 = s\<lparr>activeSetlist := Some setlist, currentChapterIndex := 0,
                            isPaused := False, pauseOffset := 0\<rparr>;
                     s2 = clearPlayback s1;
                     s3 = setSetlistPlayback
                            (\<lambda>p. p\<lparr>active := False, setlistName := Some (setlist_name setlist),
                                    chapterIndex := 0, totalChapters := length (chapters setlist),
                                    startedAt := None\<rparr>) s2
                 in (Inr (Loaded (setlist_name setlist)), s3))))"

definition setlist_play :: "real \<Rightarrow> state \<Rightarrow> (error + reply) \<times> state" where
  "setlist_play now s =
     (case activeSetlist s of
        None \<Rightarrow> (Inl (McpError ''No setlist loaded. Use setlist_load first.''), s)
      | Some sl \<Rightarrow>
          (let s1 = s\<lparr>isPaused := False, playbackStartedAt := Some now\<rparr>;
               s2 = setSetlistPlayback (\<lambda>p. p\<lparr>active := True, startedAt := Some now\<rparr>) s1
           in case nth_opt (chapters sl) (currentChapterIndex s2) of
                None \<Rightarrow> (Inl TypeError, s2)
              | Some chapter \<Rightarrow>
                  (let s3 = pushChapter now chapter (currentChapterIndex s2) (length (chapters sl)) s2;
                       s4 = scheduleNextChapter now s3
                   in (Inr (Playing (setlist_name sl) (chapter_name chapter) (currentChapterIndex s4)),
                       s4))))"

definition setlist_pause :: "real \<Rightarrow> state \<Rightarrow> (error + reply) \<times> state" where
  "setlist_pause now s =
     (case activeSetlist s of
        None \<Rightarrow> (Inl (McpError ''No setlist loaded''), s)
      | Some sl \<Rightarrow>
          if isPaused s then (Inr AlreadyPaused, s)
          else
            (let s1 = clearPlayback (s\<lparr>isPaused := True\<rparr>);
                 s2 = (case playbackStartedAt s1 of
                         None \<Rightarrow> s1
                       | Some t \<Rightarrow>
                           if t \<noteq> 0 then s1\<lparr>pauseOffset := pauseOffset s1 + (now - t)\<rparr> else s1);
                 s3 = setSetlistPlayback (\<lambda>p. p\<lparr>active := False\<rparr>) s2
             in case nth_opt (chapters sl) (currentChapterIndex s3) of
                  None \<Rightarrow> (Inl TypeError, s3)
                | Some chapter \<Rightarrow> (Inr (Paused (chapter_name chapter) (currentChapterIndex s3)), s3)))"

text \<open>\<^verbatim>\<open>toLowerCase\<close> on ASCII names.\<close>

definition lower_char :: "char \<Rightarrow> char" where
  "lower_char c =
     (let n = (of_char c :: nat) in if 65 \<le> n \<and> n \<le> 90 then char_of (n + 32) else c)"

definition toLowerCase :: "string \<Rightarrow> string" where
  "toLowerCase str = map lower_char str"

record jump_args =
  jump_index :: "int option"
  jump_name :: "string option"
  jump_time :: "real option"

definition resolve_jump :: "jump_args \<Rightarrow> Setlist \<Rightarrow> error + nat" where
  "resolve_jump args sl =
     (case jump_index args of
        Some i \<Rightarrow>
          if i < 0 \<or> i \<ge> int (length (chapters sl))
          then Inl (ChapterIndexOutOfRange i (int (length (chapters sl)) - 1))
          else Inr (nat i)
      | None \<Rightarrow>
          if truthy (jump_name args)
          then (case findIndex (\<lambda>c. toLowerCase (chapter_name c) = toLowerCase (the (jump_name args)))
                       (chapters sl) of
                  None \<Rightarrow> Inl (ChapterNotFound (the (jump_name args)))
                | Some k \<Rightarrow> Inr k)
          else
            (case jump_time args of
               Some tm \<Rightarrow>
                 (case findIndex (\<lambda>c. tm \<ge> start_time c \<and> tm < end_time c) (chapters sl) of
                    None \<Rightarrow> Inl (NoChapterAtTime tm)
                  | Some k \<Rightarrow> Inr k)
             | None \<Rightarrow> Inl (McpError ''Provide one of: index, name, or time'')))"

definition setlist_jump :: "jump_args \<Rightarrow> real \<Rightarrow> state \<Rightarrow> (error + reply) \<times> state" where
  "setlist_jump args now s =
     (case activeSetlist s of
        None \<Rightarrow> (Inl (McpError ''No setlist loaded''), s)
      | Some sl \<Rightarrow>
          (case resolve_jump args sl of
             Inl e \<Rightarrow> (Inl e, s)
           | Inr targetIndex \<Rightarrow>
               (let s1 = (clearPlayback s)\<lparr>currentChapterIndex := targetIndex, pauseOffset := 0\<rparr>;
                    s2 = setSetlistPlayback (\<lambda>p. p\<lparr>chapterIndex := targetIndex\<rparr>) s1;
                    chapter = chapters sl ! targetIndex;
                    s3 = pushChapter now chapter targetIndex (length (chapters sl)) s2;
                    s4 = (if \<not> isPaused s3
                          then scheduleNextChapter now (s3\<lparr>playbackStartedAt := Some now\<rparr>)
                          else s3)
                in (Inr (Jumped (chapter_name chapter) targetIndex), s4))))"

definition setlist_delete :: "string \<Rightarrow> state \<Rightarrow> (error + reply) \<times> state" where
  "setlist_delete name s =
     (let s1 = (case activeSetlist s of
                  None \<Rightarrow> s
                | Some sl \<Rightarrow>
                    if setlist_name sl = name
                    then setSetlistPlayback
                           (\<lambda>p. p\<lparr>active := False, setlistName := None, chapterIndex := 0,
                                   totalChapters := 0, startedAt := None\<rparr>)
                           ((clearPlayback s)\<lparr>activeSetlist := None, isPaused := False\<rparr>)
                    else s);
          (deleted, s2) = deleteSetlist name s1
      in if deleted then (Inr (Deleted name), s2) else (Inl (SetlistNotFound name), s2))"

subsection \<open>Sequences of scheduler operations\<close>

datatype sched_op =
    Load string
  | Play real
  | Pause real
  | Jump jump_args real
  | Fire nat real
  | Delete string

fun sched_step :: "sched_op \<Rightarrow> state \<Rightarrow> state" where
  "sched_step (Load name) s = snd (setlist_load name s)"
| "sched_step (Play now) s = snd (setlist_play now s)"
| "sched_step (Pause now) s = snd (setlist_pause now s)"
| "sched_step (Jump args now) s = snd (setlist_jump args now s)"
| "sched_step (Fire tid now) s = (case fire_timer tid now s of None \<Rightarrow> s | Some r \<Rightarrow> snd r)"
| "sched_step (Delete name) s = snd (setlist_delete name s)"

definition sched_run :: "sched_op list \<Rightarrow> state \<Rightarrow> state" where
  "sched_run ops s = fold sched_step ops s"

text \<open>
  The scheduler part of the state: the six module variables of the playback engine and
  the pending advance timers.
\<close>

record sched_view =
  v_activeSetlist :: "Setlist option"
  v_playbackTimer :: "nat option"
  v_playbackStartedAt :: "real option"
  v_currentChapterIndex :: nat
  v_isPaused :: bool
  v_pauseOffset :: real
  v_timers :: "timer list"

definition scheduler_state :: "state \<Rightarrow> sched_view" where
  "scheduler_state s =
     \<lparr> v_activeSetlist = activeSetlist s,
       v_playbackTimer = playbackTimer s,
       v_playbackStartedAt = playbackStartedAt s,
       v_currentChapterIndex = currentChapterIndex s,
       v_isPaused = isPaused s,
       v_pauseOffset = pauseOffset s,
       v_timers = timers s \<rparr>"

section \<open>A concrete rig\<close>

definition plasma :: ShaderPreset where
  "plasma = \<lparr>preset_id = ''plasma-1'', preset_name = ''plasma'', code = ''void main() {}''\<rparr>"

definition demo_chapter :: "string \<Rightarrow> string \<Rightarrow> real \<Rightarrow> real \<Rightarrow> SetlistChapter" where
  "demo_chapter name sh st en =
     \<lparr> chapter_name = name, shader = sh, start_time = st, end_time = en,
       transition_in = Cut, transition_duration = 1,
       params = Some [(''u_speed'', 2)],
       palette = Some \<lparr>color1 = (1, 0, 0), color2 = (0, 1, 0), color3 = (0, 0, 1), bg = black\<rparr>,
       audio_bindings = Some [\<lparr>source = ''bass'', target = ''u_param1'', multiplier = 1,
                                offset = 0, smoothing = 4 / 5\<rparr>],
       automations = Some [\<lparr>automation_target = ''u_param2'', keyframes = []\<rparr>] \<rparr>"

definition show_setlist :: Setlist where
  "show_setlist =
     \<lparr> setlist_name = ''show'',
       chapters = [demo_chapter ''Intro'' ''plasma'' 0 2, demo_chapter ''Drop'' ''plasma'' 2 4,
                   demo_chapter ''Outro'' ''plasma'' 4 6] \<rparr>"

definition broken_setlist :: Setlist where
  "broken_setlist =
     \<lparr> setlist_name = ''broken'',
       chapters = [demo_chapter ''Intro'' ''plasma'' 0 2, demo_chapter ''Drop'' ''ghost'' 2 4,
                   demo_chapter ''Outro'' ''phantom'' 4 6] \<rparr>"

definition rig :: state where
  "rig = initial_state
     \<lparr> presetFiles := (\<lambda>_. None)(''plasma'' := Some plasma),
       setlistFiles := (\<lambda>_. None)(''show'' := Some show_setlist, ''broken'' := Some broken_setlist) \<rparr>"

text \<open>The instant of the first \<^verbatim>\<open>Date.now()\<close> of the scenarios, in milliseconds.\<close>

definition t0 :: real where
  "t0 = 1000000"

section \<open>Auxiliary notions for the proofs\<close>

text \<open>
  \<open>without P xs\<close> is what \<^verbatim>\<open>findIndex\<close> followed by \<^verbatim>\<open>splice(idx, 1)\<close> leaves of
  \<open>xs\<close>; \<open>bindings_ok\<close> is the invariant of the binding registry.
\<close>

definition without :: "('a \<Rightarrow> bool) \<Rightarrow> 'a list \<Rightarrow> 'a list" where
  "without P xs = (case findIndex P xs of Some idx \<Rightarrow> splice1 idx xs | None \<Rightarrow> xs)"

definition bindings_ok :: "state \<Rightarrow> bool" where
  "bindings_ok s \<longleftrightarrow> distinct (map target (activeBindings s)) \<and> audioBindings s = activeBindings s"

definition bind1 :: AudioBinding where
  "bind1 = \<lparr>source = ''bass'', target = ''u_param1'', multiplier = 1, offset = 0, smoothing = 4/5\<rparr>"

definition bind2 :: AudioBinding where
  "bind2 = \<lparr>source = ''bass'', target = ''u_param1'', multiplier = 2, offset = 0, smoothing = 4/5\<rparr>"

text \<open>
  \<open>chapter_messages\<close> is the composite command of a chapter whose shader resolves to
  \<open>preset\<close>, in the order of the specification: shader transition, parameters, palette,
  audio bindings, automations, chapter info. \<open>flash_timers\<close> is the detached timer of a
  flash transition.
\<close>

definition chapter_messages :: "SetlistChapter \<Rightarrow> ShaderPreset \<Rightarrow> nat \<Rightarrow> nat \<Rightarrow> ws_message list" where
  "chapter_messages chapter preset index n_total =
     (case transition_in chapter of
        Crossfade \<Rightarrow> [Shader_crossfade (code preset) (preset_id preset) (transition_duration chapter)]
      | Flash \<Rightarrow> [Perform_flash (transition_duration chapter)]
      | Cut \<Rightarrow> [Shader_push (code preset) (preset_id preset)])
     @ (case params chapter of None \<Rightarrow> [] | Some entries \<Rightarrow> map (\<lambda>(name, v). Param_set name v) entries)
     @ (case palette chapter of None \<Rightarrow> [] | Some pal \<Rightarrow> [Palette_set pal])
     @ (case audio_bindings chapter of None \<Rightarrow> [] | Some bs \<Rightarrow> map Audio_bind bs)
     @ (case automations chapter of
          None \<Rightarrow> []
        | Some autos \<Rightarrow> if autos = [] then [] else [Automation_msg autos])
     @ [Chapter_info (chapter_name chapter) index n_total]"

definition flash_timers :: "real \<Rightarrow> SetlistChapter \<Rightarrow> ShaderPreset \<Rightarrow> state \<Rightarrow> timer list" where
  "flash_timers now chapter preset s =
     (if transition_in chapter = Flash
      then [\<lparr>timer_id = nextTimerId s, armedAt = now, delay = transition_duration chapter * 1000 / 2,
             action = FlashPush (code preset) (preset_id preset)\<rparr>]
      else [])"

text \<open>What \<open>pushChapter\<close> sends for a chapter in a given state.\<close>

definition emission :: "SetlistChapter \<Rightarrow> nat \<Rightarrow> nat \<Rightarrow> state \<Rightarrow> ws_message list" where
  "emission chapter index n_total s =
     (case getPreset (shader chapter) s of
        None \<Rightarrow> []
      | Some preset \<Rightarrow> chapter_messages chapter preset index n_total)"

text \<open>Every pending advance timer is the one the scheduler holds the handle of.\<close>

definition tracked_only :: "state \<Rightarrow> bool" where
  "tracked_only s \<longleftrightarrow> list_all (\<lambda>t. playbackTimer s = Some (timer_id t)) (pending_advances s)"

text \<open>The pending timers that \<open>clearPlayback\<close> leaves.\<close>

definition untracked :: "state \<Rightarrow> timer list" where
  "untracked s = filter (\<lambda>t. Some (timer_id t) \<noteq> playbackTimer s) (timers s)"

text \<open>
  Scenario states: the rig with the show loaded and playing since \<open>t0\<close>, and the rig whose
  preset file was deleted after the show was loaded.
\<close>

definition playing_rig :: state where
  "playing_rig = sched_run [Load ''show'', Play t0] rig"

definition ghost_rig :: state where
  "ghost_rig = (sched_run [Load ''show''] rig)\<lparr>presetFiles := (\<lambda>_. None)\<rparr>"

text \<open>The messages that the callback for \<^verbatim>\<open>'*'\<close> sends, as a list.\<close>

fun custom_messages :: "string \<Rightarrow> real list \<Rightarrow> (string \<times> string) list \<Rightarrow> ws_message list" where
  "custom_messages address args [] = []"
| "custom_messages address args (mapping # rest) =
     (if address = fst mapping
      then (case ext_target (snd mapping) of
              Some channel \<Rightarrow> [Ext_set (int channel) (arg_or args 0 0)]
            | None \<Rightarrow> Param_set (snd mapping) (arg_or args 0 0) # custom_messages address args rest)
      else custom_messages address args rest)"

text \<open>
  Timer identifiers are handed out in increasing order: every pending timer has an
  identifier below the next one. The scheduler operations keep this.
\<close>

definition fresh_ids :: "state \<Rightarrow> bool" where
  "fresh_ids s \<longleftrightarrow> list_all (\<lambda>t. timer_id t < nextTimerId s) (timers s)"

text \<open>
  Further scenario states: the show played twice in a row without a pause, and the show
  playing its last chapter after a jump.
\<close>

definition double_play_rig :: state where
  "double_play_rig = sched_run [Load ''show'', Play t0, Play (t0 + 500)] rig"

definition by_index :: "int \<Rightarrow> jump_args" where
  "by_index i = \<lparr>jump_index = Some i, jump_name = None, jump_time = None\<rparr>"



section \<open>Basic facts\<close>

lemma broadcasts_broadcastToClients [simp]:
  "broadcasts (broadcastToClients m s) = broadcasts s @ [m]"
  by (simp add: broadcastToClients_def)

lemma initial_fields:
  "customMappings initial_state = []" "broadcasts initial_state = []" "bpm initial_state = 120"
  "extChannels initial_state = replicate 16 0" "extXY initial_state = replicate 4 (0, 0)"
  "currentShaderId initial_state = None" "currentShaderCode initial_state = None"
  by (simp_all add: initial_state_def)

section \<open>State mirror: external input channels\<close>

text \<open>
  Claim C8. For every channel index \<open>i\<close> from 0 to 15, \<open>setExternalInput i v\<close> succeeds and the
  snapshot read afterwards is the old snapshot with \<open>v\<close> at index \<open>i\<close>: index \<open>i\<close> holds
  \<open>v\<close>, every other channel and every other snapshot field is unchanged. For an index
  below 0 or above 15 the call fails with the range error and the whole state is the
  state before the call.
\<close>

theorem setExternalInput_frame:
  "(0 \<le> i \<and> i \<le> 15 \<longrightarrow>
      fst (setExternalInput i v s) = Inr () \<and>
      getServerState (snd (setExternalInput i v s))
        = (getServerState s)\<lparr>snap_extChannels := (extChannels s)[nat i := v]\<rparr> \<and>
      (length (extChannels s) = 16 \<longrightarrow>
         snap_extChannels (getServerState (snd (setExternalInput i v s))) ! nat i = v) \<and>
      (\<forall>j. j \<noteq> nat i \<longrightarrow>
         snap_extChannels (getServerState (snd (setExternalInput i v s))) ! j = extChannels s ! j))
   \<and> (i < 0 \<or> i > 15 \<longrightarrow> setExternalInput i v s = (Inl (ExtChannelRangeError i), s))"
  by (auto simp: setExternalInput_def getServerState_def broadcastToClients_def)

theorem setExternalInput_frame_witness:
  "length (extChannels initial_state) = 16 \<and>
   fst (setExternalInput 3 (7/10) initial_state) = Inr () \<and>
   snap_extChannels (getServerState (snd (setExternalInput 3 (7/10) initial_state))) ! 3 = 7/10 \<and>
   snap_extChannels (getServerState (snd (setExternalInput 3 (7/10) initial_state))) ! 4 = 0 \<and>
   setExternalInput 16 (7/10) initial_state = (Inl (ExtChannelRangeError 16), initial_state) \<and>
   setExternalInput (-1) (7/10) initial_state = (Inl (ExtChannelRangeError (-1)), initial_state)"
  using setExternalInput_frame [of 3 "7/10" initial_state]
        setExternalInput_frame [of 16 "7/10" initial_state]
        setExternalInput_frame [of "-1" "7/10" initial_state]
  by (simp add: initial_state_def)

section \<open>State mirror: bpm\<close>




section \<open>Broadcast hub: the sequence sent to a session that joins\<close>

lemma concat_map_if:
  "concat (map (\<lambda>i. if P i then [f i] else []) xs) = map f (filter P xs)"
  by (induction xs) simp_all

lemma sync_ext_eq:
  "sync_ext s = map (\<lambda>i. Ext_set (int i) (extChannels s ! i))
                    (filter (\<lambda>i. extChannels s ! i \<noteq> 0) [0..<16])"
  unfolding sync_ext_def by (rule concat_map_if)

lemma sync_xy_eq:
  "sync_xy s = map (\<lambda>i. Ext_xy_set (int i) (fst (extXY s ! i)) (snd (extXY s ! i)))
                   (filter (\<lambda>i. extXY s ! i \<noteq> (0, 0)) [0..<4])"
proof -
  have "sync_xy s =
      concat (map (\<lambda>i. if extXY s ! i \<noteq> (0, 0)
                        then [Ext_xy_set (int i) (fst (extXY s ! i)) (snd (extXY s ! i))] else [])
                  [0..<4])"
    unfolding sync_xy_def
    by (intro arg_cong [where f = concat] map_cong) (auto simp: prod_eq_iff)
  then show ?thesis
    by (simp only: concat_map_if)
qed

lemma sync_shader_eq:
  "sync_shader s =
     (if truthy (currentShaderCode s) \<and> truthy (currentShaderId s)
      then [Shader_push (the (currentShaderCode s)) (the (currentShaderId s))] else [])"
  by (simp add: sync_shader_def truthy_def split: option.splits)

lemma sendSyncToClient_eq:
  "sendSyncToClient s =
     map (\<lambda>i. Ext_set (int i) (extChannels s ! i)) (filter (\<lambda>i. extChannels s ! i \<noteq> 0) [0..<16])
     @ map (\<lambda>i. Ext_xy_set (int i) (fst (extXY s ! i)) (snd (extXY s ! i)))
           (filter (\<lambda>i. extXY s ! i \<noteq> (0, 0)) [0..<4])
     @ [Bpm_set (bpm s)]
     @ (if truthy (currentShaderCode s) \<and> truthy (currentShaderId s)
        then [Shader_push (the (currentShaderCode s)) (the (currentShaderId s))] else [])
     @ [Palette_set (currentPalette s), Get_state]"
  by (simp only: sendSyncToClient_def sync_ext_eq sync_xy_eq sync_shader_eq getCurrentPalette_def)

section \<open>Input ingestion: the fixed address scheme\<close>

lemma dec_small:
  "dec 0 = ''0''" "dec 1 = ''1''" "dec 2 = ''2''" "dec 3 = ''3''" "dec 4 = ''4''" "dec 5 = ''5''"
  "dec 6 = ''6''" "dec 7 = ''7''" "dec 8 = ''8''" "dec 9 = ''9''" "dec 10 = ''10''"
  "dec 11 = ''11''" "dec 12 = ''12''" "dec 13 = ''13''" "dec 14 = ''14''" "dec 15 = ''15''"
  "dec (Suc 0) = ''1''"
  by (simp_all add: dec.simps dec.simps [of "Suc 0"] digit_char_def)

lemma osc_handlers_eq:
  "osc_handlers bf =
    [(''/shade/ext/0'', osc_on_ext bf 0), (''/shade/ext/1'', osc_on_ext bf 1),
     (''/shade/ext/2'', osc_on_ext bf 2), (''/shade/ext/3'', osc_on_ext bf 3),
     (''/shade/ext/4'', osc_on_ext bf 4), (''/shade/ext/5'', osc_on_ext bf 5),
     (''/shade/ext/6'', osc_on_ext bf 6), (''/shade/ext/7'', osc_on_ext bf 7),
     (''/shade/ext/8'', osc_on_ext bf 8), (''/shade/ext/9'', osc_on_ext bf 9),
     (''/shade/ext/10'', osc_on_ext bf 10), (''/shade/ext/11'', osc_on_ext bf 11),
     (''/shade/ext/12'', osc_on_ext bf 12), (''/shade/ext/13'', osc_on_ext bf 13),
     (''/shade/ext/14'', osc_on_ext bf 14), (''/shade/ext/15'', osc_on_ext bf 15),
     (''/shade/xy/0'', osc_on_xy bf 0), (''/shade/xy/1'', osc_on_xy bf 1),
     (''/shade/xy/2'', osc_on_xy bf 2), (''/shade/xy/3'', osc_on_xy bf 3),
     (''/shade/bpm'', osc_on_bpm bf),
     (''/shade/param/1'', osc_on_param bf 1), (''/shade/param/2'', osc_on_param bf 2),
     (''/shade/param/3'', osc_on_param bf 3), (''/shade/param/4'', osc_on_param bf 4),
     (''/shade/intensity'', osc_on_intensity bf), (''/shade/speed'', osc_on_speed bf),
     (''/shade/palette/color1'', osc_on_palette bf ''color1''),
     (''/shade/palette/color2'', osc_on_palette bf ''color2''),
     (''/shade/palette/color3'', osc_on_palette bf ''color3''),
     (''/shade/palette/bg'', osc_on_palette bf ''bg'')]"
proof -
  have u16: "[0..<16] = [0, 1, 2, 3, 4, 5, 6, 7, 8, 9, 10, 11, 12, 13, 14, 15 :: nat]"
    by (simp add: upt_rec)
  have u4: "[0..<4] = [0, 1, 2, 3 :: nat]" "[1..<5] = [1, 2, 3, 4 :: nat]"
    by (simp_all add: upt_rec)
  show ?thesis
    unfolding osc_handlers_def u16 u4 paletteKeys_def
    by (simp add: dec_small)
qed

lemma ext_channel_numbers:
  "(i::nat) < 16 \<Longrightarrow> i \<in> {0, 1, 2, 3, 4, 5, 6, 7, 8, 9, 10, 11, 12, 13, 14, 15}"
  by simp arith

lemma run_fixed_ext:
  assumes "i < 16"
  shows "run_fixed bf (''/shade/ext/'' @ dec i) args s = osc_on_ext bf i args s"
  using ext_channel_numbers [OF assms]
  by (elim insertE emptyE) (simp_all add: run_fixed_def osc_handlers_eq dec_small)

lemma run_fixed_xy:
  assumes "i < 4"
  shows "run_fixed bf (''/shade/xy/'' @ dec i) args s = osc_on_xy bf i args s"
proof -
  have "i \<in> {0, 1, 2, 3}"
    using assms by simp arith
  then show ?thesis
    by (elim insertE emptyE) (simp_all add: run_fixed_def osc_handlers_eq dec_small)
qed

lemma run_fixed_bpm:
  "run_fixed bf ''/shade/bpm'' args s = osc_on_bpm bf args s"
  by (simp add: run_fixed_def osc_handlers_eq)

lemma osc_on_any_eq:
  "osc_on_any broadcastToClients address args ms s
     = s\<lparr>broadcasts := broadcasts s @ custom_messages address args ms\<rparr>"
  by (induction ms arbitrary: s) (auto simp: broadcastToClients_def split: option.splits)

lemma getServerState_broadcasts [simp]:
  "getServerState (s\<lparr>broadcasts := b\<rparr>) = getServerState s"
  by (simp add: getServerState_def)

lemma sendSyncToClient_broadcasts [simp]:
  "sendSyncToClient (s\<lparr>broadcasts := b\<rparr>) = sendSyncToClient s"
  by (simp add: sendSyncToClient_def sync_ext_def sync_xy_def sync_shader_def
      getCurrentPalette_def cong: if_cong)

text \<open>
  Claim C1, as the code has it. A message on an address of the fixed scheme (an ext channel
  0 to 15, an XY channel 0 to 3, the bpm) is decoded and the decoded value is broadcast to
  the connected sessions, followed by the messages of the custom mappings registered for
  the same address, if any. Nothing but the broadcast sequence changes: the value is not
  written into the state mirror, and the snapshot of the mirror and the sequence a session
  would be sent on joining are what they were before the message.
\<close>

theorem osc_fixed_scheme_not_mirrored:
  "(i < 16 \<longrightarrow>
      osc_receive (''/shade/ext/'' @ dec i) args s
        = s\<lparr>broadcasts := broadcasts s @ [Ext_set (int i) (arg_or args 0 0)]
              @ custom_messages (''/shade/ext/'' @ dec i) args (customMappings s)\<rparr> \<and>
      getServerState (osc_receive (''/shade/ext/'' @ dec i) args s) = getServerState s \<and>
      sendSyncToClient (osc_receive (''/shade/ext/'' @ dec i) args s) = sendSyncToClient s) \<and>
   (i < 4 \<longrightarrow>
      osc_receive (''/shade/xy/'' @ dec i) args s
        = s\<lparr>broadcasts := broadcasts s @ [Ext_xy_set (int i) (arg_or args 0 0) (arg_or args 1 0)]
              @ custom_messages (''/shade/xy/'' @ dec i) args (customMappings s)\<rparr> \<and>
      getServerState (osc_receive (''/shade/xy/'' @ dec i) args s) = getServerState s \<and>
      sendSyncToClient (osc_receive (''/shade/xy/'' @ dec i) args s) = sendSyncToClient s) \<and>
   osc_receive ''/shade/bpm'' args s
     = s\<lparr>broadcasts := broadcasts s @ [Bpm_set (arg_or args 0 120)]
           @ custom_messages ''/shade/bpm'' args (customMappings s)\<rparr> \<and>
   getServerState (osc_receive ''/shade/bpm'' args s) = getServerState s \<and>
   sendSyncToClient (osc_receive ''/shade/bpm'' args s) = sendSyncToClient s"
proof -
  have ext: "i < 16 \<Longrightarrow> osc_receive (''/shade/ext/'' @ dec i) args s
        = s\<lparr>broadcasts := broadcasts s @ [Ext_set (int i) (arg_or args 0 0)]
              @ custom_messages (''/shade/ext/'' @ dec i) args (customMappings s)\<rparr>"
    using run_fixed_ext [of i broadcastToClients args s]
    by (simp add: osc_receive_def Let_def osc_on_ext_def broadcastToClients_def osc_on_any_eq)
  have xy: "i < 4 \<Longrightarrow> osc_receive (''/shade/xy/'' @ dec i) args s
        = s\<lparr>broadcasts := broadcasts s @ [Ext_xy_set (int i) (arg_or args 0 0) (arg_or args 1 0)]
              @ custom_messages (''/shade/xy/'' @ dec i) args (customMappings s)\<rparr>"
    using run_fixed_xy [of i broadcastToClients args s]
    by (simp add: osc_receive_def Let_def osc_on_xy_def broadcastToClients_def osc_on_any_eq)
  have bpm: "osc_receive ''/shade/bpm'' args s
     = s\<lparr>broadcasts := broadcasts s @ [Bpm_set (arg_or args 0 120)]
           @ custom_messages ''/shade/bpm'' args (customMappings s)\<rparr>"
    by (simp add: osc_receive_def Let_def run_fixed_bpm osc_on_bpm_def broadcastToClients_def
        osc_on_any_eq)
  show ?thesis
    using ext xy by (simp add: bpm)
qed

theorem osc_fixed_scheme_not_mirrored_witness:
  "(3::nat) < 16 \<and> (3::nat) < 4 \<and>
   osc_receive ''/shade/ext/3'' [7/10] initial_state
     = initial_state\<lparr>broadcasts := [Ext_set 3 (7/10)]\<rparr> \<and>
   osc_receive ''/shade/xy/3'' [7/10] initial_state
     = initial_state\<lparr>broadcasts := [Ext_xy_set 3 (7/10) 0]\<rparr> \<and>
   osc_receive ''/shade/bpm'' [] initial_state = initial_state\<lparr>broadcasts := [Bpm_set 120]\<rparr> \<and>
   broadcasts (osc_receive ''/shade/ext/3'' [7/10]
                 (addOscMapping ''/shade/ext/3'' ''u_param1'' initial_state))
     = [Ext_set 3 (7/10), Param_set ''u_param1'' (7/10)] \<and>
   sendSyncToClient (osc_receive ''/shade/ext/3'' [7/10]
                 (addOscMapping ''/shade/ext/3'' ''u_param1'' initial_state))
     = sendSyncToClient (addOscMapping ''/shade/ext/3'' ''u_param1'' initial_state)"
proof -
  have m: "ext_target ''u_param1'' = None"
    by (simp add: ext_target_def)
  show ?thesis
    using osc_fixed_scheme_not_mirrored [of 3 "[7/10]" initial_state]
          osc_fixed_scheme_not_mirrored [of 3 "[]" initial_state]
          osc_fixed_scheme_not_mirrored [of 3 "[7/10]"
            "addOscMapping ''/shade/ext/3'' ''u_param1'' initial_state"]
    by (simp add: dec_small arg_or_def initial_fields addOscMapping_def m)
qed

text \<open>
  Claim C1, as stated, asks for the decoded value to be written into the mirror and to
  reach a session that joins later. After \<^verbatim>\<open>/shade/ext/3 0.7\<close> on the initial state the
  value has been broadcast, channel 3 of the mirror is still 0 and the join sequence has no
  \<open>Ext_set\<close> for it; after \<^verbatim>\<open>/shade/bpm 140\<close> the mirrored bpm is still 120.
\<close>

theorem osc_ext_not_mirrored:
  "extChannels (osc_receive ''/shade/ext/3'' [7/10] initial_state) ! 3 = 0 \<and>
   Ext_set 3 (7/10) \<in> set (broadcasts (osc_receive ''/shade/ext/3'' [7/10] initial_state)) \<and>
   Ext_set 3 (7/10) \<notin> set (sendSyncToClient (osc_receive ''/shade/ext/3'' [7/10] initial_state)) \<and>
   bpm (osc_receive ''/shade/bpm'' [140] initial_state) = 120 \<and>
   Bpm_set 140 \<in> set (broadcasts (osc_receive ''/shade/bpm'' [140] initial_state)) \<and>
   Bpm_set 140 \<notin> set (sendSyncToClient (osc_receive ''/shade/bpm'' [140] initial_state))"
proof -
  have e: "osc_receive ''/shade/ext/3'' [7/10] initial_state
             = initial_state\<lparr>broadcasts := [Ext_set 3 (7/10)]\<rparr>"
    using run_fixed_ext [of 3 broadcastToClients "[7/10]" initial_state]
    by (simp add: osc_receive_def Let_def osc_on_ext_def broadcastToClients_def dec_small
        arg_or_def initial_fields)
  have b: "osc_receive ''/shade/bpm'' [140] initial_state
             = initial_state\<lparr>broadcasts := [Bpm_set 140]\<rparr>"
    by (simp add: osc_receive_def Let_def run_fixed_bpm osc_on_bpm_def broadcastToClients_def
        arg_or_def initial_fields)
  have sync: "sendSyncToClient initial_state
      = [Bpm_set 120, Palette_set (currentPalette initial_state), Get_state]"
    by (simp add: sendSyncToClient_def sync_ext_def sync_xy_def sync_shader_def
        getCurrentPalette_def initial_fields upt_rec)
  show ?thesis
    by (simp add: e b sync initial_fields)
qed

text \<open>
  No callback is registered beyond the bounds of the scheme: with no custom mapping, a
  message for ext channel 16 or XY channel 4 changes nothing.
\<close>

lemma osc_unregistered_address:
  "osc_receive ''/shade/ext/16'' args initial_state = initial_state"
  "osc_receive ''/shade/xy/4'' args initial_state = initial_state"
  by (simp_all add: osc_receive_def Let_def run_fixed_def osc_handlers_eq initial_fields)

section \<open>Audio bindings\<close>

lemma without_Nil [simp]: "without P [] = []"
  by (simp add: without_def)

lemma without_Cons [simp]:
  "without P (x # xs) = (if P x then xs else x # without P xs)"
  by (simp add: without_def splice1_def split: option.splits)

lemma set_without: "set (without P xs) \<subseteq> set xs"
  by (induction xs) auto

lemma distinct_without:
  "distinct (map f xs) \<Longrightarrow> distinct (map f (without P xs))"
proof (induction xs)
  case Nil
  then show ?case by simp
next
  case (Cons x xs)
  then show ?case using set_without [of P xs] by auto
qed

lemma without_no_target:
  "distinct (map f xs) \<Longrightarrow> filter (\<lambda>x. f x = t) (without (\<lambda>b. f b = t) xs) = []"
proof (induction xs)
  case Nil
  then show ?case by simp
next
  case (Cons x xs)
  show ?case
  proof (cases "f x = t")
    case True
    with Cons.prems have "t \<notin> f ` set xs" by auto
    then have "filter (\<lambda>x. f x = t) xs = []"
      by (auto simp: filter_empty_conv)
    with True show ?thesis by simp
  next
    case False
    with Cons show ?thesis by simp
  qed
qed

lemma filter_without_other:
  "filter (\<lambda>x. f x \<noteq> t) (without (\<lambda>b. f b = t) xs) = filter (\<lambda>x. f x \<noteq> t) xs"
  by (induction xs) auto

lemma without_length_le: "length (without P xs) \<le> length xs"
  by (induction xs) auto

lemma activeBindings_audio_bind:
  "activeBindings (snd (audio_bind b s)) = without (\<lambda>x. target x = target b) (activeBindings s) @ [b]"
  by (simp add: audio_bind_def without_def Let_def setAudioBindings_def broadcastToClients_def
      split: option.splits)

lemma audioBindings_audio_bind:
  "audioBindings (snd (audio_bind b s)) = activeBindings (snd (audio_bind b s))"
  by (simp add: audio_bind_def Let_def setAudioBindings_def broadcastToClients_def
      split: option.splits)

lemma broadcasts_audio_bind:
  "broadcasts (snd (audio_bind b s)) = broadcasts s @ [Audio_bind b]"
  by (simp add: audio_bind_def Let_def setAudioBindings_def split: option.splits)

lemma bindings_ok_audio_bind: "bindings_ok s \<Longrightarrow> bindings_ok (snd (audio_bind b s))"
  unfolding bindings_ok_def
  using without_no_target [of target "activeBindings s" "target b"]
        distinct_without [of target "activeBindings s" "\<lambda>x. target x = target b"]
  by (auto simp: activeBindings_audio_bind audioBindings_audio_bind filter_empty_conv)

lemma bindings_ok_audio_unbind: "bindings_ok s \<Longrightarrow> bindings_ok (snd (audio_unbind t s))"
proof (cases "findIndex (\<lambda>b. target b = t) (activeBindings s)")
  case None
  then show "bindings_ok s \<Longrightarrow> ?thesis" by (simp add: audio_unbind_def)
next
  case (Some idx)
  then have "activeBindings (snd (audio_unbind t s)) = without (\<lambda>b. target b = t) (activeBindings s)"
    and "audioBindings (snd (audio_unbind t s)) = without (\<lambda>b. target b = t) (activeBindings s)"
    by (simp_all add: audio_unbind_def without_def Let_def setAudioBindings_def broadcastToClients_def)
  then show "bindings_ok s \<Longrightarrow> ?thesis"
    using distinct_without [of target "activeBindings s" "\<lambda>b. target b = t"]
    by (simp add: bindings_ok_def)
qed

lemma bindings_ok_step: "bindings_ok s \<Longrightarrow> bindings_ok (audio_step a s)"
  by (cases a) (simp_all add: bindings_ok_audio_bind bindings_ok_audio_unbind)

lemma bindings_ok_run: "bindings_ok s \<Longrightarrow> bindings_ok (audio_run ops s)"
  unfolding audio_run_def
  by (induction ops arbitrary: s) (simp_all add: bindings_ok_step)

lemma bindings_ok_initial: "bindings_ok initial_state"
  by (simp add: bindings_ok_def initial_state_def)

text \<open>
  Claim C9. After any sequence of \<open>audio_bind\<close> and \<open>audio_unbind\<close> calls, starting from
  the empty registry, the mirrored bindings have pairwise different targets. A further
  \<open>audio_bind b\<close> leaves exactly one binding for the target of \<open>b\<close>, namely \<open>b\<close> itself
  (with its multiplier, offset and smoothing), keeps the bindings of all other targets,
  and broadcasts one \<open>Audio_bind b\<close>, whether or not the target was bound before.
\<close>

theorem audio_bindings_unique_by_target:
  "distinct (map target (audioBindings (audio_run ops initial_state))) \<and>
   filter (\<lambda>x. target x = target b)
      (audioBindings (snd (audio_bind b (audio_run ops initial_state)))) = [b] \<and>
   filter (\<lambda>x. target x \<noteq> target b)
      (audioBindings (snd (audio_bind b (audio_run ops initial_state))))
     = filter (\<lambda>x. target x \<noteq> target b) (audioBindings (audio_run ops initial_state)) \<and>
   broadcasts (snd (audio_bind b (audio_run ops initial_state)))
     = broadcasts (audio_run ops initial_state) @ [Audio_bind b]"
proof -
  let ?s = "audio_run ops initial_state"
  have ok: "bindings_ok ?s"
    by (rule bindings_ok_run [OF bindings_ok_initial])
  have eq: "audioBindings (snd (audio_bind b ?s))
              = without (\<lambda>x. target x = target b) (activeBindings ?s) @ [b]"
    by (simp add: audioBindings_audio_bind activeBindings_audio_bind)
  have none: "filter (\<lambda>x. target x = target b) (without (\<lambda>x. target x = target b) (activeBindings ?s)) = []"
    using without_no_target [of target "activeBindings ?s" "target b"] ok
    by (simp add: bindings_ok_def)
  have "distinct (map target (audioBindings ?s))"
    using ok by (simp add: bindings_ok_def)
  moreover have "filter (\<lambda>x. target x = target b) (audioBindings (snd (audio_bind b ?s))) = [b]"
    by (simp add: eq none)
  moreover have "filter (\<lambda>x. target x \<noteq> target b) (audioBindings (snd (audio_bind b ?s)))
      = filter (\<lambda>x. target x \<noteq> target b) (audioBindings ?s)"
    using ok by (simp add: eq filter_without_other bindings_ok_def)
  ultimately show ?thesis
    by (simp add: broadcasts_audio_bind)
qed

theorem audio_bindings_unique_by_target_witness:
  "audioBindings (snd (audio_bind bind2 (audio_run [Bind bind1] initial_state))) = [bind2] \<and>
   broadcasts (snd (audio_bind bind2 (audio_run [Bind bind1] initial_state)))
     = [Audio_bind bind1, Audio_bind bind2]"
  using audio_bindings_unique_by_target [of "[Bind bind1]" bind2]
  by (simp add: audio_run_def audio_bind_def setAudioBindings_def broadcastToClients_def
      initial_state_def splice1_def bind1_def bind2_def Let_def)

section \<open>Timeline scheduler: explicit forms of the operations\<close>

lemma fold_broadcast:
  "fold (\<lambda>x. broadcastToClients (f x)) xs s = s\<lparr>broadcasts := broadcasts s @ map f xs\<rparr>"
  by (induction xs arbitrary: s) (simp_all add: broadcastToClients_def)

lemma push_params_eq:
  "push_params ch s =
     s\<lparr>broadcasts := broadcasts s
          @ (case params ch of None \<Rightarrow> [] | Some entries \<Rightarrow> map (\<lambda>(name, v). Param_set name v) entries)\<rparr>"
proof (cases "params ch")
  case None
  then show ?thesis by (simp add: push_params_def)
next
  case (Some entries)
  have "(\<lambda>(name, v). broadcastToClients (Param_set name v))
          = (\<lambda>x. broadcastToClients ((\<lambda>(name, v). Param_set name v) x))"
    by (simp add: fun_eq_iff split: prod.splits)
  then show ?thesis
    using Some fold_broadcast [of "\<lambda>(name, v). Param_set name v" entries s]
    by (simp add: push_params_def)
qed

lemma push_palette_eq:
  "push_palette ch s =
     s\<lparr>broadcasts := broadcasts s @ (case palette ch of None \<Rightarrow> [] | Some pal \<Rightarrow> [Palette_set pal])\<rparr>"
  by (simp add: push_palette_def broadcastToClients_def split: option.splits)

lemma push_bindings_eq:
  "push_bindings ch s =
     s\<lparr>broadcasts := broadcasts s @ (case audio_bindings ch of None \<Rightarrow> [] | Some bs \<Rightarrow> map Audio_bind bs)\<rparr>"
  by (simp add: push_bindings_def fold_broadcast split: option.splits)

lemma push_automations_eq:
  "push_automations ch s =
     s\<lparr>broadcasts := broadcasts s
          @ (case automations ch of None \<Rightarrow> []
             | Some autos \<Rightarrow> if autos = [] then [] else [Automation_msg autos])\<rparr>"
  by (simp add: push_automations_def broadcastToClients_def split: option.splits)

lemma push_shader_eq:
  "push_shader now ch p s =
     s\<lparr>broadcasts := broadcasts s
          @ (case transition_in ch of
               Crossfade \<Rightarrow> [Shader_crossfade (code p) (preset_id p) (transition_duration ch)]
             | Flash \<Rightarrow> [Perform_flash (transition_duration ch)]
             | Cut \<Rightarrow> [Shader_push (code p) (preset_id p)]),
       timers := timers s @ flash_timers now ch p s,
       nextTimerId := nextTimerId s + length (flash_timers now ch p s)\<rparr>"
  by (cases "transition_in ch")
     (simp_all add: push_shader_def broadcastToClients_def setTimeout_def flash_timers_def)

lemma pushChapter_None:
  "getPreset (shader ch) s = None \<Longrightarrow> pushChapter now ch i n s = s"
  by (simp add: pushChapter_def)

lemma pushChapter_Some:
  "getPreset (shader ch) s = Some p \<Longrightarrow>
   pushChapter now ch i n s =
     s\<lparr>broadcasts := broadcasts s @ chapter_messages ch p i n,
       currentShaderId := Some (preset_id p),
       timers := timers s @ flash_timers now ch p s,
       nextTimerId := nextTimerId s + length (flash_timers now ch p s)\<rparr>"
  by (simp add: pushChapter_def Let_def push_shader_eq push_params_eq push_palette_eq
      push_bindings_eq push_automations_eq setCurrentShaderId_def broadcastToClients_def
      chapter_messages_def)

lemma clearPlayback_eq:
  "clearPlayback s = s\<lparr>timers := untracked s, playbackTimer := None\<rparr>"
  by (cases "playbackTimer s") (simp_all add: clearPlayback_def clearTimeout_def untracked_def)

lemma tracked_only_untracked:
  "tracked_only s \<Longrightarrow> filter is_advance (untracked s) = []"
  by (auto simp: tracked_only_def untracked_def pending_advances_def filter_empty_conv list_all_iff)

lemma missing_shaders_eq:
  "missing_shaders chs s = map shader (filter (\<lambda>c. getPreset (shader c) s = None) chs)"
  by (induction chs) (simp_all split: option.splits)

lemma deleteSetlist_eq:
  "deleteSetlist name s =
     (setlistFiles s (safeName name) \<noteq> None,
      s\<lparr>setlistFiles := (setlistFiles s)(safeName name := None)\<rparr>)"
proof (cases "setlistFiles s (safeName name)")
  case None
  then have "(setlistFiles s)(safeName name := None) = setlistFiles s"
    by (simp add: fun_eq_iff)
  with None show ?thesis by (simp add: deleteSetlist_def)
next
  case (Some a)
  then show ?thesis by (simp add: deleteSetlist_def)
qed

lemma playback_all_fields:
  "(p :: SetlistPlayback)\<lparr>active := a, setlistName := b, chapterIndex := c, totalChapters := d,
      startedAt := e\<rparr>
     = \<lparr>active = a, setlistName = b, chapterIndex = c, totalChapters = d, startedAt = e\<rparr>"
  by (cases p) simp

lemma safeName_examples:
  "safeName ''show'' = ''show''" "safeName ''broken'' = ''broken''"
  "safeName ''plasma'' = ''plasma''" "safeName ''ghost'' = ''ghost''"
  "safeName ''phantom'' = ''phantom''"
  by (simp_all add: safeName_def safe_char_def trim_def)

lemma rig_fields:
  "getSetlist ''show'' rig = Some show_setlist"
  "getSetlist ''broken'' rig = Some broken_setlist"
  "getPreset ''plasma'' rig = Some plasma"
  "getPreset ''ghost'' rig = None"
  "getPreset ''phantom'' rig = None"
  by (simp_all add: getSetlist_def getPreset_def safeName_examples rig_def initial_state_def)

lemma pushChapter_frame [simp]:
  "activeSetlist (pushChapter now ch i n s) = activeSetlist s"
  "isPaused (pushChapter now ch i n s) = isPaused s"
  "currentChapterIndex (pushChapter now ch i n s) = currentChapterIndex s"
  "pauseOffset (pushChapter now ch i n s) = pauseOffset s"
  "playbackTimer (pushChapter now ch i n s) = playbackTimer s"
  "playbackStartedAt (pushChapter now ch i n s) = playbackStartedAt s"
  "setlistPlayback (pushChapter now ch i n s) = setlistPlayback s"
  "presetFiles (pushChapter now ch i n s) = presetFiles s"
  "setlistFiles (pushChapter now ch i n s) = setlistFiles s"
  by (cases "getPreset (shader ch) s"; simp add: pushChapter_None pushChapter_Some)+


lemma advances_pushChapter:
  "filter is_advance (timers (pushChapter now ch i n s)) = filter is_advance (timers s)"
  by (cases "getPreset (shader ch) s")
     (simp_all add: pushChapter_None pushChapter_Some flash_timers_def is_advance_def)

lemma scheduleNextChapter_arm:
  assumes "activeSetlist s = Some sl" "\<not> isPaused s"
    and "currentChapterIndex s + 1 < length (chapters sl)"
  shows "scheduleNextChapter now s =
     s\<lparr>timers := timers s @
          [\<lparr>timer_id = nextTimerId s, armedAt = now,
            delay = max 0 ((end_time (chapters sl ! currentChapterIndex s)
                             - start_time (chapters sl ! currentChapterIndex s)) * 1000
                            - pauseOffset s),
            action = AdvanceChapter (currentChapterIndex s + 1)\<rparr>],
        nextTimerId := Suc (nextTimerId s),
        playbackTimer := Some (nextTimerId s)\<rparr>"
  using assms by (simp add: scheduleNextChapter_def Let_def setTimeout_def)



lemma setlist_play_eq:
  assumes "activeSetlist s = Some sl" "currentChapterIndex s < length (chapters sl)"
  shows "setlist_play now s =
     (Inr (Playing (setlist_name sl) (chapter_name (chapters sl ! currentChapterIndex s))
             (currentChapterIndex s)),
      scheduleNextChapter now
        (pushChapter now (chapters sl ! currentChapterIndex s) (currentChapterIndex s)
           (length (chapters sl))
           (s\<lparr>isPaused := False, playbackStartedAt := Some now,
              setlistPlayback := (setlistPlayback s)\<lparr>active := True, startedAt := Some now\<rparr>\<rparr>)))"
proof -
  have idx: "\<And>x. currentChapterIndex (scheduleNextChapter now x) = currentChapterIndex x"
    by (simp add: scheduleNextChapter_def Let_def setSetlistPlayback_def setTimeout_def
        split: option.splits)
  show ?thesis
    using assms
    by (simp add: setlist_play_def Let_def setSetlistPlayback_def nth_opt_def idx)
qed


lemma setlist_load_ok:
  assumes "getSetlist name s = Some sl" "missing_shaders (chapters sl) s = []"
  shows "setlist_load name s =
     (Inr (Loaded (setlist_name sl)),
      s\<lparr>activeSetlist := Some sl, currentChapterIndex := 0, isPaused := False, pauseOffset := 0,
        timers := untracked s, playbackTimer := None,
        setlistPlayback := \<lparr>active = False, setlistName = Some (setlist_name sl),
                             chapterIndex = 0, totalChapters = length (chapters sl),
                             startedAt = None\<rparr>\<rparr>)"
  using assms
  by (simp add: setlist_load_def Let_def clearPlayback_eq untracked_def setSetlistPlayback_def
      playback_all_fields)

lemma setlist_load_missing:
  assumes "getSetlist name s = Some sl" "missing_shaders (chapters sl) s \<noteq> []"
  shows "setlist_load name s =
     (Inl (McpError (''Missing shader presets: '' @ join '', '' (missing_shaders (chapters sl) s))), s)"
  using assms by (simp add: setlist_load_def Let_def)

lemma show_chapters:
  "chapters show_setlist = [demo_chapter ''Intro'' ''plasma'' 0 2, demo_chapter ''Drop'' ''plasma'' 2 4,
                            demo_chapter ''Outro'' ''plasma'' 4 6]"
  "setlist_name show_setlist = ''show''"
  "shader (demo_chapter a b c d) = b" "start_time (demo_chapter a b c d) = c"
  "end_time (demo_chapter a b c d) = d" "chapter_name (demo_chapter a b c d) = a"
  "transition_in (demo_chapter a b c d) = Cut"
  by (simp_all add: show_setlist_def demo_chapter_def)

lemma rig_timers:
  "timers rig = []" "playbackTimer rig = None" "nextTimerId rig = 0" "broadcasts rig = []"
  "pauseOffset rig = 0" "presetFiles rig ''plasma'' = Some plasma"
  by (simp_all add: rig_def initial_state_def)

lemma loaded_rig_eq:
  "sched_run [Load ''show''] rig =
     rig\<lparr>activeSetlist := Some show_setlist, currentChapterIndex := 0, isPaused := False,
         pauseOffset := 0, timers := [], playbackTimer := None,
         setlistPlayback := \<lparr>active = False, setlistName = Some ''show'', chapterIndex = 0,
                              totalChapters = 3, startedAt = None\<rparr>\<rparr>"
proof -
  have "missing_shaders (chapters show_setlist) rig = []"
    by (simp add: show_chapters rig_fields)
  from setlist_load_ok [OF rig_fields(1) this] show ?thesis
    by (simp add: sched_run_def show_chapters untracked_def rig_timers)
qed

lemma playing_rig_fields:
  "activeSetlist playing_rig = Some show_setlist"
  "\<not> isPaused playing_rig"
  "playbackStartedAt playing_rig = Some t0"
  "currentChapterIndex playing_rig = 0"
  "pauseOffset playing_rig = 0"
  "playbackTimer playing_rig = Some 0"
  "timers playing_rig = [\<lparr>timer_id = 0, armedAt = t0, delay = 2000, action = AdvanceChapter 1\<rparr>]"
  "presetFiles playing_rig = presetFiles rig"
  "setlistFiles playing_rig = setlistFiles rig"
  "broadcasts playing_rig = chapter_messages (demo_chapter ''Intro'' ''plasma'' 0 2) plasma 0 3"
  "nextTimerId playing_rig = 1"
  "currentShaderId playing_rig = Some ''plasma-1''"
  "currentShaderCode playing_rig = currentShaderCode rig"
  "extChannels playing_rig = extChannels rig"
  "extXY playing_rig = extXY rig"
  "bpm playing_rig = bpm rig"
  "currentPalette playing_rig = currentPalette rig"
proof -
  define l where "l = sched_run [Load ''show''] rig"
  define l' where "l' = l\<lparr>isPaused := False, playbackStartedAt := Some t0,
              setlistPlayback := (setlistPlayback l)\<lparr>active := True, startedAt := Some t0\<rparr>\<rparr>"
  define s3 where "s3 = pushChapter t0 (demo_chapter ''Intro'' ''plasma'' 0 2) 0 3 l'"
  have l_fields: "activeSetlist l = Some show_setlist" "currentChapterIndex l = 0"
    by (simp_all add: l_def loaded_rig_eq)
  have "playing_rig = snd (setlist_play t0 l)"
    by (simp add: playing_rig_def sched_run_def l_def)
  also have "\<dots> = scheduleNextChapter t0 s3"
    using setlist_play_eq [of l show_setlist t0] l_fields
    by (simp add: show_chapters s3_def l'_def numeral_3_eq_3 [symmetric])
  finally have p: "playing_rig = scheduleNextChapter t0 s3" .
  have gp: "getPreset (shader (demo_chapter ''Intro'' ''plasma'' 0 2)) l' = Some plasma"
    by (simp add: show_chapters getPreset_def safeName_examples l'_def l_def loaded_rig_eq rig_timers)
  have s3_eq: "s3 = l'\<lparr>broadcasts := chapter_messages (demo_chapter ''Intro'' ''plasma'' 0 2) plasma 0 3,
       currentShaderId := Some (preset_id plasma)\<rparr>"
    unfolding s3_def pushChapter_Some [OF gp]
    by (simp add: flash_timers_def show_chapters l'_def l_def loaded_rig_eq rig_timers)
  have s3_fields: "activeSetlist s3 = Some show_setlist" "\<not> isPaused s3"
      "currentChapterIndex s3 = 0" "pauseOffset s3 = 0" "timers s3 = []" "nextTimerId s3 = 0"
    by (simp_all add: s3_eq l'_def l_def loaded_rig_eq rig_timers)
  have arm: "playing_rig = s3\<lparr>timers := [\<lparr>timer_id = 0, armedAt = t0, delay = 2000,
                                          action = AdvanceChapter 1\<rparr>],
        nextTimerId := Suc 0, playbackTimer := Some 0\<rparr>"
    unfolding p
    using scheduleNextChapter_arm [of s3 show_setlist t0] s3_fields
    by (simp add: show_chapters)
  show "activeSetlist playing_rig = Some show_setlist"
    "\<not> isPaused playing_rig"
    "playbackStartedAt playing_rig = Some t0"
    "currentChapterIndex playing_rig = 0"
    "pauseOffset playing_rig = 0"
    "playbackTimer playing_rig = Some 0"
    "timers playing_rig = [\<lparr>timer_id = 0, armedAt = t0, delay = 2000, action = AdvanceChapter 1\<rparr>]"
    "presetFiles playing_rig = presetFiles rig"
    "setlistFiles playing_rig = setlistFiles rig"
    "broadcasts playing_rig = chapter_messages (demo_chapter ''Intro'' ''plasma'' 0 2) plasma 0 3"
    "nextTimerId playing_rig = 1"
    "currentShaderId playing_rig = Some ''plasma-1''"
    "currentShaderCode playing_rig = currentShaderCode rig"
    "extChannels playing_rig = extChannels rig"
    "extXY playing_rig = extXY rig"
    "bpm playing_rig = bpm rig"
    "currentPalette playing_rig = currentPalette rig"
    by (simp_all add: arm s3_eq l'_def l_def loaded_rig_eq plasma_def)
qed


lemma playing_rig_store:
  "getSetlist ''show'' playing_rig = Some show_setlist"
  "getSetlist ''broken'' playing_rig = Some broken_setlist"
  "getSetlist ''nothing'' playing_rig = None"
  "setlistFiles playing_rig (safeName ''show'') = Some show_setlist"
  "setlistFiles playing_rig (safeName ''broken'') = Some broken_setlist"
  "getPreset ''plasma'' playing_rig = Some plasma"
  "getPreset ''ghost'' playing_rig = None"
  "getPreset ''phantom'' playing_rig = None"
  by (simp_all add: getSetlist_def getPreset_def playing_rig_fields safeName_examples rig_def
      initial_state_def safeName_def safe_char_def trim_def)

lemma rig_store:
  "setlistFiles rig (safeName ''show'') = Some show_setlist"
  "setlistFiles rig (safeName ''broken'') = Some broken_setlist"
  by (simp_all add: safeName_examples rig_def initial_state_def)

lemma pending_playing_rig:
  "pending_advances playing_rig
     = [\<lparr>timer_id = 0, armedAt = t0, delay = 2000, action = AdvanceChapter 1\<rparr>]"
  by (simp add: pending_advances_def playing_rig_fields is_advance_def)

lemma broken_chapters:
  "chapters broken_setlist = [demo_chapter ''Intro'' ''plasma'' 0 2, demo_chapter ''Drop'' ''ghost'' 2 4,
                              demo_chapter ''Outro'' ''phantom'' 4 6]"
  by (simp add: broken_setlist_def)

lemma ghost_rig_fields:
  "activeSetlist ghost_rig = Some show_setlist" "currentChapterIndex ghost_rig = 0"
  "\<not> isPaused ghost_rig" "broadcasts ghost_rig = []" "timers ghost_rig = []"
  "presetFiles ghost_rig = (\<lambda>_. None)" "pauseOffset ghost_rig = 0"
  by (simp_all add: ghost_rig_def loaded_rig_eq rig_timers)

lemma play_adds_a_timer:
  assumes "activeSetlist s = Some sl" "currentChapterIndex s + 1 < length (chapters sl)"
  shows "length (pending_advances (snd (setlist_play now s))) = Suc (length (pending_advances s))"
proof -
  define s3 where "s3 = pushChapter now (chapters sl ! currentChapterIndex s) (currentChapterIndex s)
           (length (chapters sl))
           (s\<lparr>isPaused := False, playbackStartedAt := Some now,
              setlistPlayback := (setlistPlayback s)\<lparr>active := True, startedAt := Some now\<rparr>\<rparr>)"
  have p: "snd (setlist_play now s) = scheduleNextChapter now s3"
    using setlist_play_eq [of s sl now] assms by (simp add: s3_def)
  have f: "activeSetlist s3 = Some sl" "\<not> isPaused s3" "currentChapterIndex s3 = currentChapterIndex s"
    by (simp_all add: s3_def assms)
  have adv: "filter is_advance (timers s3) = filter is_advance (timers s)"
    by (simp add: s3_def advances_pushChapter)
  show ?thesis
    unfolding p
    using scheduleNextChapter_arm [of s3 sl now] f assms(2) adv
    by (simp add: pending_advances_def is_advance_def)
qed

lemma setlist_load_effect:
  "(getSetlist name s = None \<longrightarrow> setlist_load name s = (Inl (SetlistNotFound name), s)) \<and>
   (getSetlist name s = Some sl \<longrightarrow>
      missing_shaders (chapters sl) s
        = map shader (filter (\<lambda>c. getPreset (shader c) s = None) (chapters sl)) \<and>
      (missing_shaders (chapters sl) s \<noteq> [] \<longrightarrow>
         setlist_load name s =
           (Inl (McpError (''Missing shader presets: ''
                            @ join '', '' (missing_shaders (chapters sl) s))), s)) \<and>
      (missing_shaders (chapters sl) s = [] \<longrightarrow>
         fst (setlist_load name s) = Inr (Loaded (setlist_name sl)) \<and>
         scheduler_state (snd (setlist_load name s))
           = \<lparr>v_activeSetlist = Some sl, v_playbackTimer = None,
              v_playbackStartedAt = playbackStartedAt s, v_currentChapterIndex = 0,
              v_isPaused = False, v_pauseOffset = 0, v_timers = untracked s\<rparr> \<and>
         (tracked_only s \<longrightarrow> pending_advances (snd (setlist_load name s)) = [])))"
proof -
  have "getSetlist name s = None \<longrightarrow> setlist_load name s = (Inl (SetlistNotFound name), s)"
    by (simp add: setlist_load_def)
  moreover have "missing_shaders (chapters sl) s
        = map shader (filter (\<lambda>c. getPreset (shader c) s = None) (chapters sl))"
    by (rule missing_shaders_eq)
  moreover have "getSetlist name s = Some sl \<Longrightarrow> missing_shaders (chapters sl) s = [] \<Longrightarrow>
         fst (setlist_load name s) = Inr (Loaded (setlist_name sl)) \<and>
         scheduler_state (snd (setlist_load name s))
           = \<lparr>v_activeSetlist = Some sl, v_playbackTimer = None,
              v_playbackStartedAt = playbackStartedAt s, v_currentChapterIndex = 0,
              v_isPaused = False, v_pauseOffset = 0, v_timers = untracked s\<rparr> \<and>
         (tracked_only s \<longrightarrow> pending_advances (snd (setlist_load name s)) = [])"
    using tracked_only_untracked [of s]
    by (simp add: setlist_load_ok scheduler_state_def pending_advances_def)
  ultimately show ?thesis
    using setlist_load_missing [of name s sl] by blast
qed

lemma setlist_delete_effect:
  "(activeSetlist s = Some sl \<and> setlist_name sl = name \<longrightarrow>
      activeSetlist (snd (setlist_delete name s)) = None \<and>
      playbackTimer (snd (setlist_delete name s)) = None \<and>
      timers (snd (setlist_delete name s)) = untracked s \<and>
      (tracked_only s \<longrightarrow> pending_advances (snd (setlist_delete name s)) = []) \<and>
      \<not> isPaused (snd (setlist_delete name s)) \<and>
      setlistPlayback (snd (setlist_delete name s))
        = \<lparr>active = False, setlistName = None, chapterIndex = 0, totalChapters = 0,
           startedAt = None\<rparr>)
   \<and> ((\<forall>a. activeSetlist s = Some a \<longrightarrow> setlist_name a \<noteq> name) \<longrightarrow>
        scheduler_state (snd (setlist_delete name s)) = scheduler_state s \<and>
        setlistPlayback (snd (setlist_delete name s)) = setlistPlayback s)
   \<and> setlistFiles (snd (setlist_delete name s)) = (setlistFiles s)(safeName name := None)
   \<and> fst (setlist_delete name s)
        = (if setlistFiles s (safeName name) = None then Inl (SetlistNotFound name)
           else Inr (Deleted name))"
proof -
  have del: "\<And>u. setlist_delete name s =
      (let s1 = (case activeSetlist s of
                  None \<Rightarrow> s
                | Some sl \<Rightarrow>
                    if setlist_name sl = name
                    then setSetlistPlayback
                           (\<lambda>p. p\<lparr>active := False, setlistName := None, chapterIndex := 0,
                                   totalChapters := 0, startedAt := None\<rparr>)
                           ((clearPlayback s)\<lparr>activeSetlist := None, isPaused := False\<rparr>)
                    else s)
       in (if setlistFiles s1 (safeName name) \<noteq> None then Inr (Deleted name)
           else Inl (SetlistNotFound name),
           s1\<lparr>setlistFiles := (setlistFiles s1)(safeName name := None)\<rparr>))"
    by (simp add: setlist_delete_def deleteSetlist_eq Let_def)
  show ?thesis
  proof (cases "activeSetlist s")
    case None
    then show ?thesis
      by (simp add: del scheduler_state_def Let_def)
  next
    case (Some a)
    show ?thesis
    proof (cases "setlist_name a = name")
      case True
      with Some show ?thesis
        using tracked_only_untracked [of s]
        by (simp add: del Let_def clearPlayback_eq setSetlistPlayback_def pending_advances_def playback_all_fields)
    next
      case False
      with Some show ?thesis
        by (auto simp: del scheduler_state_def Let_def)
    qed
  qed
qed

lemma scheduleNextChapter_frame [simp]:
  "broadcasts (scheduleNextChapter now s) = broadcasts s"
  "activeSetlist (scheduleNextChapter now s) = activeSetlist s"
  "isPaused (scheduleNextChapter now s) = isPaused s"
  "currentChapterIndex (scheduleNextChapter now s) = currentChapterIndex s"
  "pauseOffset (scheduleNextChapter now s) = pauseOffset s"
  "playbackStartedAt (scheduleNextChapter now s) = playbackStartedAt s"
  "presetFiles (scheduleNextChapter now s) = presetFiles s"
  "currentShaderId (scheduleNextChapter now s) = currentShaderId s"
  "chapterIndex (setlistPlayback (scheduleNextChapter now s)) = chapterIndex (setlistPlayback s)"
  by (simp_all add: scheduleNextChapter_def Let_def setSetlistPlayback_def setTimeout_def
      split: option.splits)

lemma setlist_jump_eq:
  assumes "activeSetlist s = Some sl" "resolve_jump args sl = Inr k"
  shows "setlist_jump args now s =
     (Inr (Jumped (chapter_name (chapters sl ! k)) k),
      (let s3 = pushChapter now (chapters sl ! k) k (length (chapters sl))
                  (s\<lparr>timers := untracked s, playbackTimer := None, currentChapterIndex := k,
                     pauseOffset := 0,
                     setlistPlayback := (setlistPlayback s)\<lparr>chapterIndex := k\<rparr>\<rparr>)
       in if \<not> isPaused s then scheduleNextChapter now (s3\<lparr>playbackStartedAt := Some now\<rparr>)
          else s3))"
  using assms
  by (simp add: setlist_jump_def Let_def clearPlayback_eq untracked_def setSetlistPlayback_def)

lemma advance_callback_eq:
  assumes "activeSetlist s = Some sl" "k < length (chapters sl)"
  shows "advance_callback now k s =
     (Inr (),
      scheduleNextChapter now
        (pushChapter now (chapters sl ! k) k (length (chapters sl))
           (s\<lparr>currentChapterIndex := k, pauseOffset := 0,
              setlistPlayback := (setlistPlayback s)\<lparr>chapterIndex := k\<rparr>\<rparr>)))"
  using assms
  by (simp add: advance_callback_def Let_def setSetlistPlayback_def nth_opt_def)

lemma emission_None:
  "getPreset (shader ch) s = None \<Longrightarrow> presetFiles s' = presetFiles s \<Longrightarrow> emission ch i n s' = []"
  by (simp add: emission_def getPreset_def)

lemma rig_mirror:
  "currentShaderId rig = None" "currentShaderCode rig = None" "extChannels rig = replicate 16 0"
  "extXY rig = replicate 4 (0, 0)" "bpm rig = 120" "currentPalette rig = currentPalette initial_state"
  "activeSetlist rig = None"
  by (simp_all add: rig_def initial_state_def)

lemma ghost_rig_more:
  "currentShaderId ghost_rig = None" "resolve_jump (by_index 1) show_setlist = Inr 1"
  "getPreset x ghost_rig = None"
  by (simp_all add: ghost_rig_def loaded_rig_eq rig_mirror resolve_jump_def
      by_index_def show_chapters getPreset_def)

lemma fresh_ids_cong:
  "timers s' = timers s \<Longrightarrow> nextTimerId s' = nextTimerId s \<Longrightarrow> fresh_ids s' = fresh_ids s"
  by (simp add: fresh_ids_def)

lemma fresh_ids_filter:
  "fresh_ids s \<Longrightarrow> timers s' = filter P (timers s) \<Longrightarrow> nextTimerId s' = nextTimerId s \<Longrightarrow>
   fresh_ids s'"
  by (simp add: fresh_ids_def list_all_iff)

lemma fresh_ids_pushChapter:
  "fresh_ids s \<Longrightarrow> fresh_ids (pushChapter now ch i n s)"
  by (cases "getPreset (shader ch) s")
     (auto simp: pushChapter_None pushChapter_Some fresh_ids_def flash_timers_def list_all_iff)

lemma fresh_ids_scheduleNextChapter:
  "fresh_ids s \<Longrightarrow> fresh_ids (scheduleNextChapter now s)"
  by (auto simp: scheduleNextChapter_def Let_def setSetlistPlayback_def setTimeout_def
      fresh_ids_def list_all_iff split: option.splits)

lemma fresh_ids_clearPlayback:
  "fresh_ids s \<Longrightarrow> fresh_ids (clearPlayback s)"
  by (simp add: clearPlayback_eq fresh_ids_def untracked_def list_all_iff)

lemma fresh_ids_load:
  "fresh_ids s \<Longrightarrow> fresh_ids (snd (setlist_load name s))"
proof -
  assume f: "fresh_ids s"
  have "\<And>x. fresh_ids x \<Longrightarrow> fresh_ids (clearPlayback x)"
    by (rule fresh_ids_clearPlayback)
  then show ?thesis
    using f
    by (auto simp: setlist_load_def Let_def clearPlayback_eq untracked_def setSetlistPlayback_def
        fresh_ids_def list_all_iff split: option.splits)
qed

lemma fresh_ids_play:
  assumes "fresh_ids s"
  shows "fresh_ids (snd (setlist_play now s))"
proof (cases "activeSetlist s")
  case None
  then show ?thesis using assms by (simp add: setlist_play_def)
next
  case (Some sl)
  define s2 where "s2 = s\<lparr>isPaused := False, playbackStartedAt := Some now,
      setlistPlayback := (setlistPlayback s)\<lparr>active := True, startedAt := Some now\<rparr>\<rparr>"
  have f2: "fresh_ids s2"
    using assms by (simp add: s2_def fresh_ids_def)
  show ?thesis
  proof (cases "currentChapterIndex s < length (chapters sl)")
    case True
    have "snd (setlist_play now s) =
        scheduleNextChapter now
          (pushChapter now (chapters sl ! currentChapterIndex s) (currentChapterIndex s)
             (length (chapters sl)) s2)"
      by (simp add: setlist_play_eq [OF Some True] s2_def)
    then show ?thesis
      using f2 by (simp add: fresh_ids_pushChapter fresh_ids_scheduleNextChapter)
  next
    case False
    then have "snd (setlist_play now s) = s2"
      using Some by (simp add: setlist_play_def Let_def setSetlistPlayback_def nth_opt_def s2_def)
    then show ?thesis using f2 by simp
  qed
qed

lemma fresh_ids_pause:
  assumes "fresh_ids s"
  shows "fresh_ids (snd (setlist_pause now s))"
proof (cases "activeSetlist s")
  case None
  then show ?thesis using assms by (simp add: setlist_pause_def)
next
  case (Some sl)
  show ?thesis
  proof (cases "isPaused s")
    case True
    then show ?thesis using Some assms by (simp add: setlist_pause_def)
  next
    case False
    have "timers (snd (setlist_pause now s)) = untracked s"
      "nextTimerId (snd (setlist_pause now s)) = nextTimerId s"
      using Some False
      by (simp_all add: setlist_pause_def Let_def clearPlayback_eq untracked_def
          setSetlistPlayback_def split: option.splits)
    then show ?thesis
      using assms fresh_ids_filter [of s "snd (setlist_pause now s)"]
      by (simp add: untracked_def)
  qed
qed

lemma fresh_ids_jump:
  assumes "fresh_ids s"
  shows "fresh_ids (snd (setlist_jump args now s))"
proof (cases "activeSetlist s")
  case None
  then show ?thesis using assms by (simp add: setlist_jump_def)
next
  case (Some sl)
  show ?thesis
  proof (cases "resolve_jump args sl")
    case (Inl e)
    then show ?thesis using Some assms by (simp add: setlist_jump_def)
  next
    case (Inr k)
    define s2 where "s2 = s\<lparr>timers := untracked s, playbackTimer := None, currentChapterIndex := k,
                     pauseOffset := 0,
                     setlistPlayback := (setlistPlayback s)\<lparr>chapterIndex := k\<rparr>\<rparr>"
    define s3 where "s3 = pushChapter now (chapters sl ! k) k (length (chapters sl)) s2"
    have "fresh_ids s2"
      using assms fresh_ids_filter [of s s2] by (simp add: s2_def untracked_def)
    then have f3: "fresh_ids s3"
      by (simp add: s3_def fresh_ids_pushChapter)
    then have f3': "fresh_ids (s3\<lparr>playbackStartedAt := Some now\<rparr>)"
      by (simp add: fresh_ids_def)
    have "snd (setlist_jump args now s) =
        (if \<not> isPaused s then scheduleNextChapter now (s3\<lparr>playbackStartedAt := Some now\<rparr>) else s3)"
      by (simp add: setlist_jump_eq [OF Some Inr] Let_def s3_def s2_def)
    then show ?thesis
      using f3 f3' by (simp add: fresh_ids_scheduleNextChapter)
  qed
qed

lemma fresh_ids_delete:
  assumes "fresh_ids s"
  shows "fresh_ids (snd (setlist_delete name s))"
proof -
  have "timers (snd (setlist_delete name s)) = timers s \<or>
        timers (snd (setlist_delete name s)) = untracked s"
    "nextTimerId (snd (setlist_delete name s)) = nextTimerId s"
    by (simp_all add: setlist_delete_def deleteSetlist_eq Let_def clearPlayback_eq
        setSetlistPlayback_def split: option.splits)
  then show ?thesis
    using assms fresh_ids_filter [of s "snd (setlist_delete name s)"]
          fresh_ids_cong [of "snd (setlist_delete name s)" s]
    by (auto simp: untracked_def)
qed

lemma fresh_ids_advance:
  assumes "fresh_ids s"
  shows "fresh_ids (snd (advance_callback now k s))"
proof -
  define s2 where "s2 = s\<lparr>currentChapterIndex := k, pauseOffset := 0,
              setlistPlayback := (setlistPlayback s)\<lparr>chapterIndex := k\<rparr>\<rparr>"
  have f2: "fresh_ids s2"
    using assms by (simp add: s2_def fresh_ids_def)
  show ?thesis
  proof (cases "activeSetlist s")
    case None
    then have "snd (advance_callback now k s) = s2"
      by (simp add: advance_callback_def Let_def setSetlistPlayback_def s2_def)
    then show ?thesis using f2 by simp
  next
    case (Some sl)
    show ?thesis
    proof (cases "k < length (chapters sl)")
      case True
      have "snd (advance_callback now k s) =
          scheduleNextChapter now (pushChapter now (chapters sl ! k) k (length (chapters sl)) s2)"
        by (simp add: advance_callback_eq [OF Some True] s2_def)
      then show ?thesis
        using f2 by (simp add: fresh_ids_pushChapter fresh_ids_scheduleNextChapter)
    next
      case False
      then have "snd (advance_callback now k s) = s2"
        using Some
        by (simp add: advance_callback_def Let_def setSetlistPlayback_def nth_opt_def s2_def)
      then show ?thesis using f2 by simp
    qed
  qed
qed

lemma fresh_ids_fire:
  assumes "fresh_ids s" "fire_timer tid now s = Some r"
  shows "fresh_ids (snd r)"
proof -
  have c: "fresh_ids (clearTimeout tid s)"
    using assms(1) by (simp add: clearTimeout_def fresh_ids_def list_all_iff)
  then have "fresh_ids (broadcastToClients m (clearTimeout tid s))" for m
    by (simp add: broadcastToClients_def fresh_ids_def)
  then show ?thesis
    using assms(2) c fresh_ids_advance [of "clearTimeout tid s"]
    by (auto simp: fire_timer_def Let_def split: option.splits if_splits timer_action.splits)
qed

lemma fresh_ids_step:
  "fresh_ids s \<Longrightarrow> fresh_ids (sched_step op s)"
  by (cases op)
     (auto simp: fresh_ids_load fresh_ids_play fresh_ids_pause fresh_ids_jump fresh_ids_delete
        fresh_ids_fire split: option.splits)

lemma fresh_ids_run:
  "fresh_ids s \<Longrightarrow> fresh_ids (sched_run ops s)"
  unfolding sched_run_def
  by (induction ops arbitrary: s) (simp_all add: fresh_ids_step)

lemma fresh_ids_initial:
  "fresh_ids (sched_run ops initial_state)"
proof -
  have "fresh_ids initial_state"
    by (simp add: fresh_ids_def initial_state_def)
  then show ?thesis
    by (rule fresh_ids_run)
qed


lemma double_play_rig_fields:
  "activeSetlist double_play_rig = Some show_setlist"
  "\<not> isPaused double_play_rig"
  "playbackStartedAt double_play_rig = Some (t0 + 500)"
  "currentChapterIndex double_play_rig = 0"
  "pauseOffset double_play_rig = 0"
  "playbackTimer double_play_rig = Some 1"
  "timers double_play_rig =
     [\<lparr>timer_id = 0, armedAt = t0, delay = 2000, action = AdvanceChapter 1\<rparr>,
      \<lparr>timer_id = 1, armedAt = t0 + 500, delay = 2000, action = AdvanceChapter 1\<rparr>]"
  "presetFiles double_play_rig = presetFiles rig"
  "setlistFiles double_play_rig = setlistFiles rig"
proof -
  define s2 where "s2 = playing_rig\<lparr>isPaused := False, playbackStartedAt := Some (t0 + 500),
      setlistPlayback := (setlistPlayback playing_rig)\<lparr>active := True, startedAt := Some (t0 + 500)\<rparr>\<rparr>"
  define s3 where "s3 = pushChapter (t0 + 500) (demo_chapter ''Intro'' ''plasma'' 0 2) 0 3 s2"
  have "double_play_rig = snd (setlist_play (t0 + 500) playing_rig)"
    by (simp add: double_play_rig_def sched_run_def playing_rig_def)
  also have "\<dots> = scheduleNextChapter (t0 + 500) s3"
    using setlist_play_eq [of playing_rig show_setlist "t0 + 500"]
    by (simp add: playing_rig_fields show_chapters s3_def s2_def numeral_3_eq_3 [symmetric])
  finally have p: "double_play_rig = scheduleNextChapter (t0 + 500) s3" .
  have gp: "getPreset (shader (demo_chapter ''Intro'' ''plasma'' 0 2)) s2 = Some plasma"
    by (simp add: show_chapters getPreset_def safeName_examples s2_def playing_rig_fields rig_timers)
  have s3_eq: "s3 = s2\<lparr>broadcasts := broadcasts s2
                        @ chapter_messages (demo_chapter ''Intro'' ''plasma'' 0 2) plasma 0 3,
       currentShaderId := Some (preset_id plasma)\<rparr>"
    unfolding s3_def pushChapter_Some [OF gp]
    by (simp add: flash_timers_def show_chapters)
  have s3_fields: "activeSetlist s3 = Some show_setlist" "\<not> isPaused s3"
      "currentChapterIndex s3 = 0" "pauseOffset s3 = 0"
      "timers s3 = [\<lparr>timer_id = 0, armedAt = t0, delay = 2000, action = AdvanceChapter 1\<rparr>]"
      "nextTimerId s3 = 1"
    by (simp_all add: s3_eq s2_def playing_rig_fields)
  have arm: "double_play_rig =
      s3\<lparr>timers := [\<lparr>timer_id = 0, armedAt = t0, delay = 2000, action = AdvanceChapter 1\<rparr>,
                     \<lparr>timer_id = 1, armedAt = t0 + 500, delay = 2000, action = AdvanceChapter 1\<rparr>],
        nextTimerId := Suc 1, playbackTimer := Some 1\<rparr>"
    unfolding p
    using scheduleNextChapter_arm [of s3 show_setlist "t0 + 500"] s3_fields
    by (simp add: show_chapters)
  show "activeSetlist double_play_rig = Some show_setlist"
    "\<not> isPaused double_play_rig"
    "playbackStartedAt double_play_rig = Some (t0 + 500)"
    "currentChapterIndex double_play_rig = 0"
    "pauseOffset double_play_rig = 0"
    "playbackTimer double_play_rig = Some 1"
    "timers double_play_rig =
       [\<lparr>timer_id = 0, armedAt = t0, delay = 2000, action = AdvanceChapter 1\<rparr>,
        \<lparr>timer_id = 1, armedAt = t0 + 500, delay = 2000, action = AdvanceChapter 1\<rparr>]"
    "presetFiles double_play_rig = presetFiles rig"
    "setlistFiles double_play_rig = setlistFiles rig"
    by (simp_all add: arm s3_eq s2_def playing_rig_fields)
qed




lemma double_play_rig_store:
  "getSetlist ''show'' double_play_rig = Some show_setlist"
  "missing_shaders (chapters show_setlist) double_play_rig = []"
  "untracked double_play_rig
     = [\<lparr>timer_id = 0, armedAt = t0, delay = 2000, action = AdvanceChapter 1\<rparr>]"
  "setlistFiles double_play_rig (safeName ''show'') = Some show_setlist"
proof -
  show "getSetlist ''show'' double_play_rig = Some show_setlist"
    "setlistFiles double_play_rig (safeName ''show'') = Some show_setlist"
    by (simp_all add: getSetlist_def double_play_rig_fields rig_store)
  show "missing_shaders (chapters show_setlist) double_play_rig = []"
    by (simp add: getPreset_def double_play_rig_fields show_chapters safeName_examples rig_timers)
  show "untracked double_play_rig
     = [\<lparr>timer_id = 0, armedAt = t0, delay = 2000, action = AdvanceChapter 1\<rparr>]"
    by (simp add: double_play_rig_fields untracked_def)
qed

section \<open>Chapter emission with a missing shader\<close>

text \<open>
  Claim C2, as the code has it. When the shader name of the chapter does not resolve in the
  preset files, the whole chapter emission is skipped, not only the shader push: the
  emission returns at once with the state unchanged, so the parameter values, the palette,
  the audio bindings, the automations and the chapter info are not broadcast either. Play,
  jump and the internal advance still complete: they reply as usual, move to the chapter
  and broadcast nothing. When the name resolves, the emission broadcasts the composite
  command in its fixed order, mirrors the shader id and, for a flash transition, arms the
  delayed shader push.
\<close>

theorem emission_skipped_without_shader:
  "(getPreset (shader ch) s = None \<longrightarrow> pushChapter now ch i n s = s) \<and>
   (getPreset (shader ch) s = Some p \<longrightarrow>
      pushChapter now ch i n s =
        s\<lparr>broadcasts := broadcasts s @ chapter_messages ch p i n,
          currentShaderId := Some (preset_id p),
          timers := timers s @ flash_timers now ch p s,
          nextTimerId := nextTimerId s + length (flash_timers now ch p s)\<rparr>) \<and>
   (activeSetlist s = Some sl \<and> currentChapterIndex s < length (chapters sl) \<and>
    getPreset (shader (chapters sl ! currentChapterIndex s)) s = None \<longrightarrow>
      fst (setlist_play now s)
        = Inr (Playing (setlist_name sl) (chapter_name (chapters sl ! currentChapterIndex s))
                 (currentChapterIndex s)) \<and>
      broadcasts (snd (setlist_play now s)) = broadcasts s \<and>
      currentShaderId (snd (setlist_play now s)) = currentShaderId s) \<and>
   (activeSetlist s = Some sl \<and> resolve_jump args sl = Inr k \<and>
    getPreset (shader (chapters sl ! k)) s = None \<longrightarrow>
      fst (setlist_jump args now s) = Inr (Jumped (chapter_name (chapters sl ! k)) k) \<and>
      currentChapterIndex (snd (setlist_jump args now s)) = k \<and>
      broadcasts (snd (setlist_jump args now s)) = broadcasts s \<and>
      currentShaderId (snd (setlist_jump args now s)) = currentShaderId s) \<and>
   (activeSetlist s = Some sl \<and> k < length (chapters sl) \<and>
    getPreset (shader (chapters sl ! k)) s = None \<longrightarrow>
      fst (advance_callback now k s) = Inr () \<and>
      currentChapterIndex (snd (advance_callback now k s)) = k \<and>
      broadcasts (snd (advance_callback now k s)) = broadcasts s \<and>
      currentShaderId (snd (advance_callback now k s)) = currentShaderId s)"
proof -
  have gp: "\<And>c x y. getPreset c x = None \<Longrightarrow> presetFiles y = presetFiles x \<Longrightarrow> getPreset c y = None"
    by (simp add: getPreset_def)
  have play: "activeSetlist s = Some sl \<Longrightarrow> currentChapterIndex s < length (chapters sl) \<Longrightarrow>
    getPreset (shader (chapters sl ! currentChapterIndex s)) s = None \<Longrightarrow>
      fst (setlist_play now s)
        = Inr (Playing (setlist_name sl) (chapter_name (chapters sl ! currentChapterIndex s))
                 (currentChapterIndex s)) \<and>
      broadcasts (snd (setlist_play now s)) = broadcasts s \<and>
      currentShaderId (snd (setlist_play now s)) = currentShaderId s"
    by (simp add: setlist_play_eq pushChapter_None gp)
  have jump: "activeSetlist s = Some sl \<Longrightarrow> resolve_jump args sl = Inr k \<Longrightarrow>
    getPreset (shader (chapters sl ! k)) s = None \<Longrightarrow>
      fst (setlist_jump args now s) = Inr (Jumped (chapter_name (chapters sl ! k)) k) \<and>
      currentChapterIndex (snd (setlist_jump args now s)) = k \<and>
      broadcasts (snd (setlist_jump args now s)) = broadcasts s \<and>
      currentShaderId (snd (setlist_jump args now s)) = currentShaderId s"
    by (simp add: setlist_jump_eq Let_def pushChapter_None gp)
  have adv: "activeSetlist s = Some sl \<Longrightarrow> k < length (chapters sl) \<Longrightarrow>
    getPreset (shader (chapters sl ! k)) s = None \<Longrightarrow>
      fst (advance_callback now k s) = Inr () \<and>
      currentChapterIndex (snd (advance_callback now k s)) = k \<and>
      broadcasts (snd (advance_callback now k s)) = broadcasts s \<and>
      currentShaderId (snd (advance_callback now k s)) = currentShaderId s"
    by (simp add: advance_callback_eq pushChapter_None gp)
  show ?thesis
    using play jump adv by (simp add: pushChapter_None pushChapter_Some)
qed

theorem emission_skipped_without_shader_witness:
  "getPreset (shader (demo_chapter ''Drop'' ''ghost'' 2 4)) playing_rig = None \<and>
   pushChapter t0 (demo_chapter ''Drop'' ''ghost'' 2 4) 1 3 playing_rig = playing_rig \<and>
   getPreset (shader (demo_chapter ''Drop'' ''plasma'' 2 4)) rig = Some plasma \<and>
   broadcasts (pushChapter t0 (demo_chapter ''Drop'' ''plasma'' 2 4) 1 3 rig)
     = [Shader_push ''void main() {}'' ''plasma-1'', Param_set ''u_speed'' 2,
        Palette_set \<lparr>color1 = (1, 0, 0), color2 = (0, 1, 0), color3 = (0, 0, 1), bg = black\<rparr>,
        Audio_bind \<lparr>source = ''bass'', target = ''u_param1'', multiplier = 1, offset = 0,
                    smoothing = 4 / 5\<rparr>,
        Automation_msg [\<lparr>automation_target = ''u_param2'', keyframes = []\<rparr>],
        Chapter_info ''Drop'' 1 3] \<and>
   currentShaderId (pushChapter t0 (demo_chapter ''Drop'' ''plasma'' 2 4) 1 3 rig) = Some ''plasma-1'' \<and>
   activeSetlist ghost_rig = Some show_setlist \<and>
   currentChapterIndex ghost_rig < length (chapters show_setlist) \<and>
   getPreset (shader (chapters show_setlist ! currentChapterIndex ghost_rig)) ghost_rig = None \<and>
   fst (setlist_play t0 ghost_rig) = Inr (Playing ''show'' ''Intro'' 0) \<and>
   broadcasts (snd (setlist_play t0 ghost_rig)) = [] \<and>
   resolve_jump (by_index 1) show_setlist = Inr 1 \<and>
   fst (setlist_jump (by_index 1) t0 ghost_rig) = Inr (Jumped ''Drop'' 1) \<and>
   broadcasts (snd (setlist_jump (by_index 1) t0 ghost_rig)) = [] \<and>
   fst (advance_callback t0 1 ghost_rig) = Inr () \<and>
   currentChapterIndex (snd (advance_callback t0 1 ghost_rig)) = 1 \<and>
   broadcasts (snd (advance_callback t0 1 ghost_rig)) = []"
proof -
  have a: "pushChapter t0 (demo_chapter ''Drop'' ''ghost'' 2 4) 1 3 playing_rig = playing_rig"
    using emission_skipped_without_shader
      [of "demo_chapter ''Drop'' ''ghost'' 2 4" playing_rig t0 1 3 plasma show_setlist "by_index 1" 1]
    by (simp add: show_chapters playing_rig_store)
  have b: "pushChapter t0 (demo_chapter ''Drop'' ''plasma'' 2 4) 1 3 rig =
        rig\<lparr>broadcasts := broadcasts rig @ chapter_messages (demo_chapter ''Drop'' ''plasma'' 2 4) plasma 1 3,
          currentShaderId := Some (preset_id plasma),
          timers := timers rig @ flash_timers t0 (demo_chapter ''Drop'' ''plasma'' 2 4) plasma rig,
          nextTimerId := nextTimerId rig
             + length (flash_timers t0 (demo_chapter ''Drop'' ''plasma'' 2 4) plasma rig)\<rparr>"
    using emission_skipped_without_shader
      [of "demo_chapter ''Drop'' ''plasma'' 2 4" rig t0 1 3 plasma show_setlist "by_index 1" 1]
    by (simp add: show_chapters rig_fields)
  have c: "fst (setlist_play t0 ghost_rig) = Inr (Playing ''show'' ''Intro'' 0) \<and>
      broadcasts (snd (setlist_play t0 ghost_rig)) = [] \<and>
      fst (setlist_jump (by_index 1) t0 ghost_rig) = Inr (Jumped ''Drop'' 1) \<and>
      broadcasts (snd (setlist_jump (by_index 1) t0 ghost_rig)) = [] \<and>
      fst (advance_callback t0 1 ghost_rig) = Inr () \<and>
      currentChapterIndex (snd (advance_callback t0 1 ghost_rig)) = 1 \<and>
      broadcasts (snd (advance_callback t0 1 ghost_rig)) = []"
    using emission_skipped_without_shader
      [of "chapters show_setlist ! 0" ghost_rig t0 0 3 plasma show_setlist "by_index 1" 1]
    by (simp add: ghost_rig_fields ghost_rig_more show_chapters)
  have b': "broadcasts (pushChapter t0 (demo_chapter ''Drop'' ''plasma'' 2 4) 1 3 rig)
     = [Shader_push ''void main() {}'' ''plasma-1'', Param_set ''u_speed'' 2,
        Palette_set \<lparr>color1 = (1, 0, 0), color2 = (0, 1, 0), color3 = (0, 0, 1), bg = black\<rparr>,
        Audio_bind \<lparr>source = ''bass'', target = ''u_param1'', multiplier = 1, offset = 0,
                    smoothing = 4 / 5\<rparr>,
        Automation_msg [\<lparr>automation_target = ''u_param2'', keyframes = []\<rparr>],
        Chapter_info ''Drop'' 1 3]"
    "currentShaderId (pushChapter t0 (demo_chapter ''Drop'' ''plasma'' 2 4) 1 3 rig) = Some ''plasma-1''"
    by (subst b, simp add: rig_timers chapter_messages_def demo_chapter_def plasma_def)+
  show ?thesis
    using a b' c
    by (simp add: show_chapters playing_rig_store rig_fields ghost_rig_fields ghost_rig_more)
qed

text \<open>
  Claim C2, as stated, asks for the rest of the composite command to be broadcast when
  the shader is missing. In \<open>ghost_rig\<close> the show is loaded and its preset file has been
  deleted since; the first chapter carries parameters, a palette, bindings and automations,
  and \<open>setlist_play\<close> succeeds without broadcasting anything.
\<close>

theorem missing_shader_skips_whole_chapter:
  "activeSetlist ghost_rig = Some show_setlist \<and>
   params (chapters show_setlist ! 0) \<noteq> None \<and>
   palette (chapters show_setlist ! 0) \<noteq> None \<and>
   audio_bindings (chapters show_setlist ! 0) \<noteq> None \<and>
   automations (chapters show_setlist ! 0) \<noteq> None \<and>
   getPreset (shader (chapters show_setlist ! 0)) ghost_rig = None \<and>
   fst (setlist_play t0 ghost_rig) = Inr (Playing ''show'' ''Intro'' 0) \<and>
   broadcasts (snd (setlist_play t0 ghost_rig)) = []"
proof -
  define s2 where "s2 = ghost_rig\<lparr>isPaused := False, playbackStartedAt := Some t0,
     setlistPlayback := (setlistPlayback ghost_rig)\<lparr>active := True, startedAt := Some t0\<rparr>\<rparr>"
  have gp: "getPreset (shader (chapters show_setlist ! 0)) s2 = None"
       "getPreset (shader (chapters show_setlist ! 0)) ghost_rig = None"
    by (simp_all add: getPreset_def s2_def ghost_rig_fields)
  have play: "setlist_play t0 ghost_rig =
      (Inr (Playing ''show'' ''Intro'' 0), scheduleNextChapter t0 s2)"
    using setlist_play_eq [of ghost_rig show_setlist t0] pushChapter_None [OF gp(1)]
    by (simp add: ghost_rig_fields show_chapters s2_def)
  have "broadcasts (scheduleNextChapter t0 s2) = []"
    using scheduleNextChapter_arm [of s2 show_setlist t0]
    by (simp add: s2_def ghost_rig_fields show_chapters)
  then show ?thesis
    using gp(2) by (simp add: play ghost_rig_fields) (simp add: show_chapters demo_chapter_def)
qed

section \<open>The number of pending advance timers\<close>

text \<open>
  Claim C3. The claim asks for at most one pending chapter-advance timer after any sequence
  of scheduler operations, in particular after two plays in a row. \<open>setlist_play\<close> does
  not call \<open>clearPlayback\<close> before \<open>scheduleNextChapter\<close> arms a timer, as the load, pause
  and jump handlers do: after load, play, play on the three-chapter show two advance timers
  are pending.
\<close>

theorem play_twice_two_timers:
  "length (pending_advances (sched_run [Load ''show'', Play t0, Play (t0 + 500)] rig)) = 2"
proof -
  have "sched_run [Load ''show'', Play t0, Play (t0 + 500)] rig
          = snd (setlist_play (t0 + 500) playing_rig)"
    by (simp add: sched_run_def playing_rig_def)
  then show ?thesis
    using play_adds_a_timer [of playing_rig show_setlist "t0 + 500"]
    by (simp add: playing_rig_fields show_chapters pending_playing_rig)
qed

section \<open>Pause and resume\<close>




section \<open>Loading a setlist\<close>

text \<open>
  Claim C5. The claim asks a successful load to cancel any pending timer.
  \<open>setlist_load\<close> cancels the timer whose handle the scheduler holds. After load, play, play
  the timer of the first play is pending and no handle refers to it: a further, successful
  load resets the chapter index and empties the handle but leaves that timer pending, and
  when it runs, 2 seconds after the first play, it advances the setlist just loaded, which
  was never played, to chapter 1.
\<close>

theorem load_leaves_earlier_timer:
  "fst (setlist_load ''show'' double_play_rig) = Inr (Loaded ''show'') \<and>
   playbackTimer (snd (setlist_load ''show'' double_play_rig)) = None \<and>
   currentChapterIndex (snd (setlist_load ''show'' double_play_rig)) = 0 \<and>
   pending_advances (snd (setlist_load ''show'' double_play_rig))
     = [\<lparr>timer_id = 0, armedAt = t0, delay = 2000, action = AdvanceChapter 1\<rparr>] \<and>
   fst (the (fire_timer 0 (t0 + 2000) (snd (setlist_load ''show'' double_play_rig)))) = Inr () \<and>
   currentChapterIndex
     (snd (the (fire_timer 0 (t0 + 2000) (snd (setlist_load ''show'' double_play_rig))))) = 1"
proof -
  define l where "l = double_play_rig\<lparr>activeSetlist := Some show_setlist, currentChapterIndex := 0,
        isPaused := False, pauseOffset := 0, timers := untracked double_play_rig,
        playbackTimer := None,
        setlistPlayback := \<lparr>active = False, setlistName = Some (setlist_name show_setlist),
                             chapterIndex = 0, totalChapters = length (chapters show_setlist),
                             startedAt = None\<rparr>\<rparr>"
  have ld: "setlist_load ''show'' double_play_rig = (Inr (Loaded ''show''), l)"
    using setlist_load_ok [OF double_play_rig_store(1,2)]
    by (simp add: l_def show_chapters)
  have l_fields: "activeSetlist l = Some show_setlist" "playbackTimer l = None"
    "currentChapterIndex l = 0"
    "timers l = [\<lparr>timer_id = 0, armedAt = t0, delay = 2000, action = AdvanceChapter 1\<rparr>]"
    by (simp_all add: l_def double_play_rig_store)
  have act: "activeSetlist (clearTimeout 0 l) = Some show_setlist"
    by (simp add: clearTimeout_def l_fields)
  have fire: "fire_timer 0 (t0 + 2000) l = Some (advance_callback (t0 + 2000) 1 (clearTimeout 0 l))"
    by (simp add: fire_timer_def l_fields due_def Let_def)
  have lt: "Suc 0 < length (chapters show_setlist)"
    by (simp add: show_chapters)
  have cb: "fst (advance_callback (t0 + 2000) 1 (clearTimeout 0 l)) = Inr ()"
    "currentChapterIndex (snd (advance_callback (t0 + 2000) 1 (clearTimeout 0 l))) = 1"
    by (simp_all add: advance_callback_eq [OF act lt])
  show ?thesis
    using cb by (simp add: ld fire l_fields pending_advances_def is_advance_def)
qed

section \<open>Deleting a setlist\<close>

text \<open>
  Claim C10. The claim asks the deletion of the active setlist to cancel the pending
  chapter-advance timer. \<open>setlist_delete\<close> cancels the timer whose handle the scheduler
  holds. After load, play, play the timer of the first play is pending and no handle refers
  to it: deleting the active setlist empties the handle and the active setlist but leaves
  that timer pending, and when it runs its callback finds no setlist and fails.
\<close>

theorem delete_leaves_earlier_timer:
  "fst (setlist_delete ''show'' double_play_rig) = Inr (Deleted ''show'') \<and>
   activeSetlist (snd (setlist_delete ''show'' double_play_rig)) = None \<and>
   playbackTimer (snd (setlist_delete ''show'' double_play_rig)) = None \<and>
   pending_advances (snd (setlist_delete ''show'' double_play_rig))
     = [\<lparr>timer_id = 0, armedAt = t0, delay = 2000, action = AdvanceChapter 1\<rparr>] \<and>
   fst (the (fire_timer 0 (t0 + 2000) (snd (setlist_delete ''show'' double_play_rig))))
     = Inl TypeError"
proof -
  define d where "d = snd (setlist_delete ''show'' double_play_rig)"
  have eff: "fst (setlist_delete ''show'' double_play_rig) = Inr (Deleted ''show'')"
    "activeSetlist d = None" "playbackTimer d = None"
    "timers d = [\<lparr>timer_id = 0, armedAt = t0, delay = 2000, action = AdvanceChapter 1\<rparr>]"
    using setlist_delete_effect [of double_play_rig show_setlist "''show''"]
    by (simp_all add: d_def double_play_rig_fields double_play_rig_store rig_store show_chapters)
  have act: "activeSetlist (clearTimeout 0 d) = None"
    by (simp add: clearTimeout_def eff)
  have fire: "fire_timer 0 (t0 + 2000) d = Some (advance_callback (t0 + 2000) 1 (clearTimeout 0 d))"
    by (simp add: fire_timer_def eff due_def Let_def)
  have cb: "fst (advance_callback (t0 + 2000) 1 (clearTimeout 0 d)) = Inl TypeError"
    using act by (simp add: advance_callback_def Let_def setSetlistPlayback_def)
  show ?thesis
    unfolding d_def [symmetric]
    using cb by (simp add: eff fire pending_advances_def is_advance_def)
qed

section \<open>Joining after a chapter was pushed\<close>

text \<open>
  Claim C6. The claim asks for a shader push in the join sequence exactly when a current
  shader is mirrored. Chapter emission records the current shader in \<open>currentShaderId\<close>,
  the shader field of the snapshot; \<open>sendSyncToClient\<close> sends the shader only when
  \<open>currentShaderCode\<close> is set as well, and chapter emission does not set it. After load and
  play the mirror reports the shader \<open>plasma-1\<close>, the sessions connected at that time were
  sent its code, and a session that joins now is sent the bpm, the palette and the status
  request, but no shader.
\<close>

theorem join_after_chapter_push_without_shader:
  "currentShaderId playing_rig = Some ''plasma-1'' \<and>
   snap_currentShaderId (getServerState playing_rig) = Some ''plasma-1'' \<and>
   currentShaderCode playing_rig = None \<and>
   Shader_push ''void main() {}'' ''plasma-1'' \<in> set (broadcasts playing_rig) \<and>
   sendSyncToClient playing_rig
     = [Bpm_set 120, Palette_set (currentPalette initial_state), Get_state]"
proof -
  have b: "Shader_push ''void main() {}'' ''plasma-1'' \<in> set (broadcasts playing_rig)"
    by (simp add: playing_rig_fields chapter_messages_def demo_chapter_def plasma_def)
  have s: "sendSyncToClient playing_rig
     = [Bpm_set 120, Palette_set (currentPalette initial_state), Get_state]"
    by (simp add: sendSyncToClient_def sync_ext_def sync_xy_def sync_shader_def
        getCurrentPalette_def playing_rig_fields rig_mirror upt_rec)
  show ?thesis
    using b s by (simp add: getServerState_def playing_rig_fields rig_mirror)
qed

end
